theory Spec2Isabelle
  imports Main "HOL-Library.Word"
begin

unbundle bit_operations_syntax

section \<open>The RAM region negotiator of Micro32 (memory_manager.h, memory_manager.cpp)\<close>

text \<open>
  Micro32 is a 32-bit RISC-V target (kernel_main.cpp reads register a1 into a
  \<^verbatim>\<open>uint32_t\<close>), so \<^verbatim>\<open>uintptr_t\<close> and \<^verbatim>\<open>std::size_t\<close> are both 32-bit unsigned
  integers: addition and subtraction wrap modulo \<open>2 ^ 32\<close>, comparison is unsigned.
\<close>

type_synonym uintptr_t = "32 word"
type_synonym size_t = "32 word"

text \<open>\<^verbatim>\<open>struct Region { uintptr_t start; uintptr_t end; }\<close>, the half-open interval
  \<open>[start, end)\<close>. (\<open>end\<close> is reserved in Isabelle, hence the prefix on both fields.)\<close>

record Region =
  r_start :: uintptr_t
  r_end :: uintptr_t

definition DEFAULT_RAM_BASE :: uintptr_t where
  "DEFAULT_RAM_BASE = 0x3F800000"

definition DEFAULT_RAM_SIZE :: size_t where
  "DEFAULT_RAM_SIZE = 32 * 1024 * 1024"

definition RESERVED_PREFIX :: size_t where
  "RESERVED_PREFIX = 8 * 1024"

definition ALIGN :: uintptr_t where
  "ALIGN = 4"

subsection \<open>Memory\<close>

text \<open>
  Byte-addressed memory. The zeroing loop stores through a \<^verbatim>\<open>volatile uint32_t*\<close>:
  one store writes the four bytes at \<open>p, p + 1, p + 2, p + 3\<close> (little-endian, as on
  RISC-V), with the addresses computed modulo \<open>2 ^ 32\<close>.
  The five static variables of memory_manager.cpp are modelled twice. First as fields
  of a state record beside this memory: that is the call as long as no static variable
  lies in a range the loop zeroes. Then, further down, as objects of this memory at
  addresses given by a layout (\<open>reserve_at\<close>), where the loop can overwrite them.
\<close>

type_synonym memory = "uintptr_t \<Rightarrow> 8 word"

definition store32 :: "memory \<Rightarrow> uintptr_t \<Rightarrow> 32 word \<Rightarrow> memory" where
  "store32 m p v =
     m(p := ucast v,
       p + 1 := ucast (drop_bit 8 v),
       p + 2 := ucast (drop_bit 16 v),
       p + 3 := ucast (drop_bit 24 v))"

definition load32 :: "memory \<Rightarrow> uintptr_t \<Rightarrow> 32 word" where
  "load32 m p =
     ucast (m p) OR push_bit 8 (ucast (m (p + 1)))
       OR push_bit 16 (ucast (m (p + 2))) OR push_bit 24 (ucast (m (p + 3)))"

text \<open>A memory holding a previous occupant's data: every byte is \<open>0xAA\<close>.\<close>

definition stale_memory :: memory where
  "stale_memory = (\<lambda>a. 0xAA)"

subsection \<open>The negotiator's state\<close>

text \<open>The static variables \<^verbatim>\<open>s_ram_base\<close>, \<^verbatim>\<open>s_ram_size\<close>, \<^verbatim>\<open>s_reserved_region\<close>,
  \<^verbatim>\<open>s_reserved\<close>, \<^verbatim>\<open>s_explicit_bounds_set\<close> (memory_manager.cpp, lines 39-43), and
  the memory the zeroing loop writes.\<close>

record negotiator =
  s_ram_base :: uintptr_t
  s_ram_size :: size_t
  s_reserved_region :: Region
  s_reserved :: bool
  s_explicit_bounds_set :: bool
  ram :: memory

text \<open>The state at load time: the initialisers of lines 39-43, over any memory.\<close>

definition initial_state :: "memory \<Rightarrow> negotiator" where
  "initial_state m =
     \<lparr> s_ram_base = DEFAULT_RAM_BASE,
       s_ram_size = DEFAULT_RAM_SIZE,
       s_reserved_region = \<lparr> r_start = 0, r_end = 0 \<rparr>,
       s_reserved = False,
       s_explicit_bounds_set = False,
       ram = m \<rparr>"

subsection \<open>The boot-environment marker\<close>

text \<open>
  \<^verbatim>\<open>__ram_end\<close> is a weak symbol: \<open>None\<close> when the linker provides none (its address
  then resolves to the null pointer), \<open>Some a\<close> when it is provided at address \<open>a\<close>.
  \<^verbatim>\<open>compute_ram_end_from_linker\<close> (lines 46-57) returns 0 for "not available".
\<close>

definition compute_ram_end_from_linker :: "uintptr_t option \<Rightarrow> uintptr_t" where
  "compute_ram_end_from_linker marker =
     (case marker of
        None \<Rightarrow> 0
      | Some addr \<Rightarrow> if addr = 0 then 0 else addr)"

subsection \<open>The operations\<close>

text \<open>\<^verbatim>\<open>set_ram_bounds\<close> (lines 59-64).\<close>

definition set_ram_bounds :: "uintptr_t \<Rightarrow> size_t \<Rightarrow> negotiator \<Rightarrow> negotiator" where
  "set_ram_bounds ram_base ram_size s =
     s\<lparr> s_ram_base := ram_base, s_ram_size := ram_size, s_explicit_bounds_set := True \<rparr>"

text \<open>
  Lines 70-85 of \<^verbatim>\<open>reserve_all_except_first_8kb\<close>: the local \<^verbatim>\<open>ram_base\<close> and
  \<^verbatim>\<open>ram_size\<close> the rest of the call works with.
\<close>

definition effective_ram_bounds :: "uintptr_t option \<Rightarrow> negotiator \<Rightarrow> uintptr_t \<times> size_t" where
  "effective_ram_bounds marker s =
     (let ram_base = s_ram_base s;
          ram_size = s_ram_size s
      in if \<not> s_explicit_bounds_set s then
           (let linker_ram_end = compute_ram_end_from_linker marker
            in if linker_ram_end \<noteq> 0 \<and> linker_ram_end > ram_base
               then (ram_base, linker_ram_end - ram_base)
               else (s_ram_base s, s_ram_size s))
         else (ram_base, ram_size))"

text \<open>
  The zeroing loop of lines 118-122: \<^verbatim>\<open>while (p < p_end) { *p++ = 0u; }\<close>.
  The pointer advances by four bytes, modulo \<open>2 ^ 32\<close>; \<open>None\<close> stands for a loop
  that never ends.
\<close>

partial_function (option) zero_loop :: "uintptr_t \<Rightarrow> uintptr_t \<Rightarrow> memory \<Rightarrow> memory option" where
  "zero_loop p p_end m =
     (if p < p_end then zero_loop (p + 4) p_end (store32 m p 0) else Some m)"

declare zero_loop.simps [code]

text \<open>
  The local \<^verbatim>\<open>usable_start\<close> when line 107 is reached: \<^verbatim>\<open>ram_base + RESERVED_PREFIX\<close>
  (line 94), rounded up by lines 99-101. \<^verbatim>\<open>~(ALIGN - 1)\<close> is the bitwise complement.
\<close>

definition usable_start_of :: "uintptr_t \<Rightarrow> uintptr_t" where
  "usable_start_of ram_base =
     (let usable_start = ram_base + RESERVED_PREFIX
      in if usable_start mod ALIGN \<noteq> 0
         then (usable_start + (ALIGN - 1)) AND NOT (ALIGN - 1)
         else usable_start)"

text \<open>
  The local \<^verbatim>\<open>usable_end\<close> when line 107 is reached: \<^verbatim>\<open>ram_base + ram_size\<close>
  (line 95), rounded down by lines 103-105.
\<close>

definition usable_end_of :: "uintptr_t \<Rightarrow> size_t \<Rightarrow> uintptr_t" where
  "usable_end_of ram_base ram_size =
     (let usable_end = ram_base + ram_size
      in if usable_end mod ALIGN \<noteq> 0
         then usable_end AND NOT (ALIGN - 1)
         else usable_end)"

text \<open>
  Lines 87-126 of \<^verbatim>\<open>reserve_all_except_first_8kb\<close>, from the local bounds on: the
  sanity check, the candidate region with both ends aligned, the collapse check, the
  commit of the region (lines 112-113), the optional zeroing (lines 117-123) and the
  flag (line 125). The result is the returned boolean and the state after the call;
  \<open>None\<close> is a call that never returns. Here the static variables are record fields,
  which the loop cannot reach: \<open>reserve_at\<close> below is the same call with the static
  variables in the memory the loop writes, and \<open>reserve_at_simulated\<close> relates the two.
\<close>

definition reserve_with_bounds ::
  "uintptr_t \<Rightarrow> size_t \<Rightarrow> bool \<Rightarrow> negotiator \<Rightarrow> (bool \<times> negotiator) option" where
  "reserve_with_bounds ram_base ram_size zero_memory s =
     (if ram_size \<le> RESERVED_PREFIX then Some (False, s)
      else
        let usable_start = usable_start_of ram_base;
            usable_end = usable_end_of ram_base ram_size
        in if usable_start \<ge> usable_end then Some (False, s)
           else
             let s1 = s\<lparr> s_reserved_region := \<lparr> r_start = usable_start, r_end = usable_end \<rparr> \<rparr>
             in case (if zero_memory then zero_loop usable_start usable_end (ram s1)
                      else Some (ram s1)) of
                  None \<Rightarrow> None
                | Some m \<Rightarrow> Some (True, s1\<lparr> ram := m, s_reserved := True \<rparr>))"

text \<open>\<^verbatim>\<open>reserve_all_except_first_8kb\<close> (lines 66-127).\<close>

definition reserve_all_except_first_8kb ::
  "uintptr_t option \<Rightarrow> bool \<Rightarrow> negotiator \<Rightarrow> (bool \<times> negotiator) option" where
  "reserve_all_except_first_8kb marker zero_memory s =
     (if s_reserved s then Some (True, s)
      else case effective_ram_bounds marker s of
             (ram_base, ram_size) \<Rightarrow> reserve_with_bounds ram_base ram_size zero_memory s)"


subsection \<open>Sequences of calls\<close>

text \<open>
  The interface of memory_manager.h has three entry points that touch the state. A
  client is a sequence of calls to them; the marker is fixed at link time. \<open>run\<close>
  gives the state after the sequence (\<open>None\<close> if a call never returns).
\<close>

datatype call =
  Set_ram_bounds uintptr_t size_t
| Reserve bool
| Get_reserved_region

fun run :: "uintptr_t option \<Rightarrow> call list \<Rightarrow> negotiator \<Rightarrow> negotiator option" where
  "run marker [] s = Some s"
| "run marker (Set_ram_bounds b sz # cs) s = run marker cs (set_ram_bounds b sz s)"
| "run marker (Reserve z # cs) s =
     (case reserve_all_except_first_8kb marker z s of
        None \<Rightarrow> None
      | Some (r, s') \<Rightarrow> run marker cs s')"
| "run marker (Get_reserved_region # cs) s = run marker cs s"

text \<open>Whether a call is a call of \<^verbatim>\<open>set_ram_bounds\<close>.\<close>

fun is_set_ram_bounds :: "call \<Rightarrow> bool" where
  "is_set_ram_bounds (Set_ram_bounds b sz) = True"
| "is_set_ram_bounds c = False"

text \<open>
  The arguments of the last \<^verbatim>\<open>set_ram_bounds\<close> call of a sequence, \<open>None\<close> when it
  has none: what "explicitly configured" means for a client.
\<close>

fun configured_bounds :: "call list \<Rightarrow> (uintptr_t \<times> size_t) option" where
  "configured_bounds [] = None"
| "configured_bounds (c # cs) =
     (case configured_bounds cs of
        Some x \<Rightarrow> Some x
      | None \<Rightarrow> (case c of Set_ram_bounds b sz \<Rightarrow> Some (b, sz) | _ \<Rightarrow> None))"

text \<open>
  What holds of the static variables between calls: without an explicit call the
  stored bounds are the compile-time defaults; the region is the zero interval until
  a reservation commits, and aligned and non-empty from then on.
\<close>

definition state_inv :: "negotiator \<Rightarrow> bool" where
  "state_inv s =
     ((\<not> s_explicit_bounds_set s \<longrightarrow>
         s_ram_base s = DEFAULT_RAM_BASE \<and> s_ram_size s = DEFAULT_RAM_SIZE) \<and>
      (\<not> s_reserved s \<longrightarrow> s_reserved_region s = \<lparr> r_start = 0, r_end = 0 \<rparr>) \<and>
      (s_reserved s \<longrightarrow>
         unat (r_start (s_reserved_region s)) mod 4 = 0 \<and>
         unat (r_end (s_reserved_region s)) mod 4 = 0 \<and>
         r_start (s_reserved_region s) < r_end (s_reserved_region s)))"

subsection \<open>The static variables in memory\<close>

text \<open>
  The five static variables are objects of the memory the zeroing loop writes. Where
  the linker puts them is not in the source, so their addresses are a parameter.
  \<^verbatim>\<open>s_ram_base\<close> and \<^verbatim>\<open>s_ram_size\<close> take four bytes each, \<^verbatim>\<open>s_reserved_region\<close> eight
  (\<^verbatim>\<open>start\<close> at offset 0, \<^verbatim>\<open>end\<close> at offset 4), each \<^verbatim>\<open>bool\<close> one byte.
\<close>

record layout =
  at_ram_base :: uintptr_t
  at_ram_size :: uintptr_t
  at_reserved_region :: uintptr_t
  at_reserved :: uintptr_t
  at_explicit_bounds_set :: uintptr_t

text \<open>The four byte addresses of a 32-bit object at \<open>p\<close>.\<close>

definition bytes4 :: "uintptr_t \<Rightarrow> uintptr_t list" where
  "bytes4 p = [p, p + 1, p + 2, p + 3]"

text \<open>The eighteen byte addresses the static variables occupy.\<close>

definition statics_bytes :: "layout \<Rightarrow> uintptr_t list" where
  "statics_bytes L =
     bytes4 (at_ram_base L) @ bytes4 (at_ram_size L) @
     bytes4 (at_reserved_region L) @ bytes4 (at_reserved_region L + 4) @
     [at_reserved L, at_explicit_bounds_set L]"

text \<open>A layout gives distinct objects distinct storage.\<close>

definition wf_layout :: "layout \<Rightarrow> bool" where
  "wf_layout L = distinct (statics_bytes L)"

text \<open>No byte of a static variable lies in \<open>[lo, hi)\<close>.\<close>

definition statics_outside :: "layout \<Rightarrow> uintptr_t \<Rightarrow> uintptr_t \<Rightarrow> bool" where
  "statics_outside L lo hi = list_all (\<lambda>a. \<not> (lo \<le> a \<and> a < hi)) (statics_bytes L)"

text \<open>A \<^verbatim>\<open>bool\<close> object is one byte: 1 for true, 0 for false; any non-zero byte reads
  as true.\<close>

definition load_bool :: "memory \<Rightarrow> uintptr_t \<Rightarrow> bool" where
  "load_bool m p = (m p \<noteq> 0)"

definition store_bool :: "memory \<Rightarrow> uintptr_t \<Rightarrow> bool \<Rightarrow> memory" where
  "store_bool m p v = m(p := (if v then 1 else 0))"

text \<open>The values of the static variables as a memory holds them, with that memory.\<close>

definition statics_of :: "layout \<Rightarrow> memory \<Rightarrow> negotiator" where
  "statics_of L m =
     \<lparr> s_ram_base = load32 m (at_ram_base L),
       s_ram_size = load32 m (at_ram_size L),
       s_reserved_region =
         \<lparr> r_start = load32 m (at_reserved_region L),
           r_end = load32 m (at_reserved_region L + 4) \<rparr>,
       s_reserved = load_bool m (at_reserved L),
       s_explicit_bounds_set = load_bool m (at_explicit_bounds_set L),
       ram = m \<rparr>"

text \<open>A memory at load time holds the initialisers of lines 39-43 in the static
  variables; \<open>load_image\<close> writes them into a given memory.\<close>

definition loaded :: "layout \<Rightarrow> memory \<Rightarrow> bool" where
  "loaded L m =
     (load32 m (at_ram_base L) = DEFAULT_RAM_BASE \<and>
      load32 m (at_ram_size L) = DEFAULT_RAM_SIZE \<and>
      load32 m (at_reserved_region L) = 0 \<and>
      load32 m (at_reserved_region L + 4) = 0 \<and>
      \<not> load_bool m (at_reserved L) \<and>
      \<not> load_bool m (at_explicit_bounds_set L))"

definition load_image :: "layout \<Rightarrow> memory \<Rightarrow> memory" where
  "load_image L m =
     store_bool
       (store_bool
          (store32
             (store32
                (store32 (store32 m (at_ram_base L) DEFAULT_RAM_BASE)
                   (at_ram_size L) DEFAULT_RAM_SIZE)
                (at_reserved_region L) 0)
             (at_reserved_region L + 4) 0)
          (at_reserved L) False)
       (at_explicit_bounds_set L) False"

text \<open>\<^verbatim>\<open>set_ram_bounds\<close> (lines 59-64) as three stores.\<close>

definition set_ram_bounds_at :: "layout \<Rightarrow> uintptr_t \<Rightarrow> size_t \<Rightarrow> memory \<Rightarrow> memory" where
  "set_ram_bounds_at L ram_base ram_size m =
     store_bool
       (store32 (store32 m (at_ram_base L) ram_base) (at_ram_size L) ram_size)
       (at_explicit_bounds_set L) True"

text \<open>
  \<^verbatim>\<open>reserve_all_except_first_8kb\<close> (lines 66-127) on memory. Line 68 reads
  \<^verbatim>\<open>s_reserved\<close>; lines 70-85 read the stored bounds and the explicit flag; lines
  112-113 store the region into \<^verbatim>\<open>s_reserved_region\<close>; the loop of lines 118-122 then
  zeroes \<open>[usable_start, usable_end)\<close>, whatever lies there; line 125 stores
  \<^verbatim>\<open>s_reserved\<close> after the loop.
\<close>

definition reserve_at ::
  "layout \<Rightarrow> uintptr_t option \<Rightarrow> bool \<Rightarrow> memory \<Rightarrow> (bool \<times> memory) option" where
  "reserve_at L marker zero_memory m =
     (if load_bool m (at_reserved L) then Some (True, m)
      else case effective_ram_bounds marker (statics_of L m) of
        (ram_base, ram_size) \<Rightarrow>
          if ram_size \<le> RESERVED_PREFIX then Some (False, m)
          else
            let usable_start = usable_start_of ram_base;
                usable_end = usable_end_of ram_base ram_size
            in if usable_start \<ge> usable_end then Some (False, m)
               else
                 let m1 = store32 (store32 m (at_reserved_region L) usable_start)
                            (at_reserved_region L + 4) usable_end
                 in case (if zero_memory then zero_loop usable_start usable_end m1
                          else Some m1) of
                      None \<Rightarrow> None
                    | Some m2 \<Rightarrow> Some (True, store_bool m2 (at_reserved L) True))"

text \<open>\<^verbatim>\<open>get_reserved_region\<close> (lines 129-131): two loads.\<close>

definition get_reserved_region_at :: "layout \<Rightarrow> memory \<Rightarrow> Region" where
  "get_reserved_region_at L m =
     \<lparr> r_start = load32 m (at_reserved_region L),
       r_end = load32 m (at_reserved_region L + 4) \<rparr>"

text \<open>The memory after a sequence of calls.\<close>

fun run_at :: "layout \<Rightarrow> uintptr_t option \<Rightarrow> call list \<Rightarrow> memory \<Rightarrow> memory option" where
  "run_at L marker [] m = Some m"
| "run_at L marker (Set_ram_bounds b sz # cs) m = run_at L marker cs (set_ram_bounds_at L b sz m)"
| "run_at L marker (Reserve z # cs) m =
     (case reserve_at L marker z m of
        None \<Rightarrow> None
      | Some (r, m') \<Rightarrow> run_at L marker cs m')"
| "run_at L marker (Get_reserved_region # cs) m = run_at L marker cs m"

text \<open>
  The loop of a call spares the static variables: when the call reaches the loop (it
  was asked to zero, no reservation is committed, the size passes the sanity check),
  no byte of a static variable lies in the interval the loop runs over.
\<close>

definition zeroing_spares_statics :: "layout \<Rightarrow> uintptr_t option \<Rightarrow> bool \<Rightarrow> memory \<Rightarrow> bool" where
  "zeroing_spares_statics L marker zero_memory m =
     (case effective_ram_bounds marker (statics_of L m) of
        (ram_base, ram_size) \<Rightarrow>
          zero_memory \<and> \<not> load_bool m (at_reserved L) \<and> RESERVED_PREFIX < ram_size \<longrightarrow>
          statics_outside L (usable_start_of ram_base) (usable_end_of ram_base ram_size))"

text \<open>Every call of a sequence spares the static variables.\<close>

fun run_spares_statics :: "layout \<Rightarrow> uintptr_t option \<Rightarrow> call list \<Rightarrow> memory \<Rightarrow> bool" where
  "run_spares_statics L marker [] m = True"
| "run_spares_statics L marker (Set_ram_bounds b sz # cs) m =
     run_spares_statics L marker cs (set_ram_bounds_at L b sz m)"
| "run_spares_statics L marker (Reserve z # cs) m =
     (zeroing_spares_statics L marker z m \<and>
      (case reserve_at L marker z m of
         None \<Rightarrow> True
       | Some (r, m') \<Rightarrow> run_spares_statics L marker cs m'))"
| "run_spares_statics L marker (Get_reserved_region # cs) m = run_spares_statics L marker cs m"

text \<open>Two layouts: the static variables at \<open>0x10000\<close>, away from the regions used
  below, and at \<open>0x804B248\<close>, so that \<^verbatim>\<open>set_ram_bounds(0x8049248, 0x2014)\<close> makes the
  region \<open>[0x804B248, 0x804B25C)\<close> cover them.\<close>

definition layout_apart :: layout where
  "layout_apart =
     \<lparr> at_ram_base = 0x10000, at_ram_size = 0x10004, at_reserved_region = 0x10008,
       at_reserved = 0x10010, at_explicit_bounds_set = 0x10011 \<rparr>"

definition layout_inside :: layout where
  "layout_inside =
     \<lparr> at_ram_base = 0x804B248, at_ram_size = 0x804B24C, at_reserved_region = 0x804B250,
       at_reserved = 0x804B258, at_explicit_bounds_set = 0x804B259 \<rparr>"

text \<open>The memory at load time under each of the two layouts, over stale contents.\<close>

definition boot_apart :: memory where
  "boot_apart = load_image layout_apart stale_memory"

definition boot_inside :: memory where
  "boot_inside = load_image layout_inside stale_memory"

subsection \<open>Notions the properties are stated with\<close>

text \<open>
  The memory with every byte of \<open>[lo, hi)\<close> set to zero and every other byte kept:
  what the zeroing is meant to achieve.
\<close>

definition zero_fill :: "uintptr_t \<Rightarrow> uintptr_t \<Rightarrow> memory \<Rightarrow> memory" where
  "zero_fill lo hi m = (\<lambda>a. if lo \<le> a \<and> a < hi then 0 else m a)"

text \<open>
  The memory a call leaves when it commits \<open>[lo, hi)\<close>: the region stored, the interval
  zeroed if asked, the flag stored last (\<open>reserve_at_eq\<close> shows it is).
\<close>

definition committed_memory :: "layout \<Rightarrow> uintptr_t \<Rightarrow> uintptr_t \<Rightarrow> bool \<Rightarrow> memory \<Rightarrow> memory" where
  "committed_memory L lo hi zero_memory m =
     store_bool
       ((if zero_memory then zero_fill lo hi else id)
          (store32 (store32 m (at_reserved_region L) lo) (at_reserved_region L + 4) hi))
       (at_reserved L) True"

text \<open>
  Containment of a region in \<open>[base + RESERVED_PREFIX, base + size)\<close>, the sums taken
  in the natural numbers (no wrap-around).
\<close>

definition contained_exact :: "uintptr_t \<Rightarrow> size_t \<Rightarrow> Region \<Rightarrow> bool" where
  "contained_exact base sz r =
     (unat base + unat RESERVED_PREFIX \<le> unat (r_start r) \<and>
      unat (r_end r) \<le> unat base + unat sz)"

section \<open>Alignment in unsigned arithmetic\<close>

lemma Suc_Suc_diff_2: "2 \<le> n \<Longrightarrow> Suc (Suc (n - 2)) = n" by arith

lemma and_not_mask_2: "(w::32 word) AND NOT (mask 2) = push_bit 2 (drop_bit 2 w)"
  by (auto simp add: bit_eq_iff bit_simps Suc_Suc_diff_2 not_less)

lemma and_minus_4_diff: "(w::32 word) AND - 4 = w - w mod 4"
proof -
  have "push_bit 2 (drop_bit 2 w) + take_bit 2 w = w" by (rule bits_ident)
  hence "push_bit 2 (drop_bit 2 w) = w - take_bit 2 w" by (simp add: algebra_simps)
  moreover have "w AND - 4 = push_bit 2 (drop_bit 2 w)"
    using and_not_mask_2 [of w] by (simp add: mask_eq_exp_minus_1)
  ultimately show ?thesis by (simp add: take_bit_eq_mod)
qed

lemma unat_and_minus_4: "unat ((w::32 word) AND - 4) = unat w div 4 * 4"
proof -
  have "w mod 4 \<le> w" by (simp add: word_le_nat_alt unat_mod)
  hence "unat (w - w mod 4) = unat w - unat w mod 4"
    by (simp add: unat_sub unat_mod)
  thus ?thesis unfolding and_minus_4_diff by (simp add: minus_mod_eq_div_mult)
qed

lemma word_mod_4_iff: "((w::32 word) mod 4 = 0) = (unat w mod 4 = 0)"
proof -
  have "unat (w mod 4) = unat w mod 4" by (simp add: unat_mod)
  thus ?thesis by (metis unat_eq_zero unat_0)
qed

lemma unat_lt32: "unat (w::32 word) < 4294967296"
  using unsigned_less [of w, where 'a = nat] by simp

lemma unat_usable_end_of:
  "unat (usable_end_of b sz) = unat (b + sz) div 4 * 4"
proof (cases "(b + sz) mod 4 = 0")
  case True
  hence "unat (b + sz) mod 4 = 0" by (simp add: word_mod_4_iff)
  hence "unat (b + sz) div 4 * 4 = unat (b + sz)" by presburger
  with True show ?thesis by (simp add: usable_end_of_def ALIGN_def Let_def)
next
  case False
  thus ?thesis by (simp add: usable_end_of_def ALIGN_def Let_def unat_and_minus_4)
qed

lemma div4_mod_general: "((x::nat) mod (4 * M)) div 4 * 4 = (x div 4 * 4) mod (4 * M)"
proof -
  have "x mod (4 * M) = 4 * (x div 4 mod M) + x mod 4" by (rule mod_mult2_eq)
  hence "x mod (4 * M) div 4 = x div 4 mod M" by simp
  thus ?thesis by (simp add: mult.commute)
qed

lemma round_up_mod: "((x::nat) mod 4294967296) div 4 * 4 = (x div 4 * 4) mod 4294967296"
  using div4_mod_general [of x 1073741824] by simp

lemma unat_usable_start_of:
  "unat (usable_start_of b) = ((unat (b + RESERVED_PREFIX) + 3) div 4 * 4) mod 2 ^ 32"
proof (cases "(b + RESERVED_PREFIX) mod 4 = 0")
  case True
  hence "unat (b + RESERVED_PREFIX) mod 4 = 0" by (simp add: word_mod_4_iff)
  hence "(unat (b + RESERVED_PREFIX) + 3) div 4 * 4 = unat (b + RESERVED_PREFIX)" by presburger
  with True show ?thesis
    using unat_lt32 [of "b + RESERVED_PREFIX"]
    by (simp add: usable_start_of_def ALIGN_def Let_def)
next
  case False
  have "unat (b + RESERVED_PREFIX + 3) = (unat (b + RESERVED_PREFIX) + 3) mod 4294967296"
    by (simp add: unat_word_ariths)
  with False show ?thesis
    by (simp add: usable_start_of_def ALIGN_def Let_def unat_and_minus_4 round_up_mod)
qed

lemma usable_end_of_aligned: "unat (usable_end_of b sz) mod 4 = 0"
  by (simp add: unat_usable_end_of)

lemma usable_start_of_aligned: "unat (usable_start_of b) mod 4 = 0"
proof -
  have "((x::nat) div 4 * 4) mod 4294967296 = (x mod 4294967296) div 4 * 4" for x
    by (simp add: round_up_mod)
  thus ?thesis by (simp add: unat_usable_start_of)
qed

section \<open>The zeroing loop\<close>

lemma store32_zero: "store32 m p 0 = m(p := 0, p + 1 := 0, p + 2 := 0, p + 3 := 0)"
  by (simp add: store32_def)

lemma zero_fill_step:
  fixes p p_end :: "32 word"
  assumes "unat p + 4 \<le> unat p_end"
  shows "zero_fill (p + 4) p_end (store32 m p 0) = zero_fill p p_end m"
proof (rule ext)
  fix a :: "32 word"
  have e: "unat p_end < 4294967296" by (rule unat_lt32)
  have u0: "unat (p + 4) = unat p + 4" using assms e by (simp add: unat_word_ariths)
  have u1: "unat (p + 1) = unat p + 1" using assms e by (simp add: unat_word_ariths)
  have u2: "unat (p + 2) = unat p + 2" using assms e by (simp add: unat_word_ariths)
  have u3: "unat (p + 3) = unat p + 3" using assms e by (simp add: unat_word_ariths)
  have eqs: "a = p \<longleftrightarrow> unat a = unat p" "a = p + 1 \<longleftrightarrow> unat a = unat p + 1"
    "a = p + 2 \<longleftrightarrow> unat a = unat p + 2" "a = p + 3 \<longleftrightarrow> unat a = unat p + 3"
    using u1 u2 u3 by (metis word_unat_eq_iff)+
  show "zero_fill (p + 4) p_end (store32 m p 0) a = zero_fill p p_end m a"
    using assms u0
    by (auto simp add: zero_fill_def store32_zero word_le_nat_alt word_less_nat_alt eqs)
qed

lemma zero_loop_steps:
  fixes p p_end :: "32 word"
  shows "unat p_end = unat p + 4 * n \<Longrightarrow> zero_loop p p_end m = Some (zero_fill p p_end m)"
proof (induction n arbitrary: p m)
  case 0
  hence "p = p_end" by (simp add: word_unat_eq_iff)
  thus ?case by (subst zero_loop.simps) (auto simp add: zero_fill_def fun_eq_iff)
next
  case (Suc n)
  have e: "unat p_end < 4294967296" by (rule unat_lt32)
  have lt: "p < p_end" using Suc.prems by (simp add: word_less_nat_alt)
  have u0: "unat (p + 4) = unat p + 4" using Suc.prems e by (simp add: unat_word_ariths)
  hence "unat p_end = unat (p + 4) + 4 * n" using Suc.prems by simp
  hence "zero_loop (p + 4) p_end (store32 m p 0) = Some (zero_fill (p + 4) p_end (store32 m p 0))"
    by (rule Suc.IH)
  moreover have "unat p + 4 \<le> unat p_end" using Suc.prems by simp
  ultimately show ?case using lt
    by (subst zero_loop.simps) (simp add: zero_fill_step)
qed

lemma zero_loop_aligned:
  fixes p p_end :: "32 word"
  assumes "unat p mod 4 = 0" "unat p_end mod 4 = 0" "p \<le> p_end"
  shows "zero_loop p p_end m = Some (zero_fill p p_end m)"
proof -
  have "unat p \<le> unat p_end" using assms(3) by (simp add: word_le_nat_alt)
  with assms(1,2) have "unat p_end = unat p + 4 * ((unat p_end - unat p) div 4)"
    by presburger
  thus ?thesis by (rule zero_loop_steps)
qed

lemma reserve_with_bounds_eq:
  "reserve_with_bounds b sz z s =
     (if sz \<le> RESERVED_PREFIX \<or> usable_end_of b sz \<le> usable_start_of b then Some (False, s)
      else Some (True,
        s\<lparr> s_reserved_region := \<lparr> r_start = usable_start_of b, r_end = usable_end_of b sz \<rparr>,
           ram := (if z then zero_fill (usable_start_of b) (usable_end_of b sz) (ram s) else ram s),
           s_reserved := True \<rparr>))"
proof -
  have "zero_loop (usable_start_of b) (usable_end_of b sz) m =
        Some (zero_fill (usable_start_of b) (usable_end_of b sz) m)"
    if "\<not> usable_end_of b sz \<le> usable_start_of b" for m
    using that by (intro zero_loop_aligned usable_start_of_aligned usable_end_of_aligned) simp
  thus ?thesis by (simp add: reserve_with_bounds_def Let_def)
qed

section \<open>What a call does, and what every call preserves\<close>

lemma reserve_eq:
  "reserve_all_except_first_8kb marker z s =
     (if s_reserved s then Some (True, s)
      else reserve_with_bounds (fst (effective_ram_bounds marker s))
             (snd (effective_ram_bounds marker s)) z s)"
  by (simp add: reserve_all_except_first_8kb_def split: prod.split)

lemma reserve_total: "\<exists>r s'. reserve_all_except_first_8kb marker z s = Some (r, s')"
  by (auto simp add: reserve_eq reserve_with_bounds_eq)

lemma reserve_fields:
  assumes "reserve_all_except_first_8kb marker z s = Some (r, s')"
  shows "s_ram_base s' = s_ram_base s" "s_ram_size s' = s_ram_size s"
    "s_explicit_bounds_set s' = s_explicit_bounds_set s"
  using assms by (auto simp add: reserve_eq reserve_with_bounds_eq split: if_splits)

lemma reserve_False:
  assumes "reserve_all_except_first_8kb marker z s = Some (False, s')"
  shows "s' = s" "\<not> s_reserved s"
  using assms by (auto simp add: reserve_eq reserve_with_bounds_eq split: if_splits)

lemma reserve_True:
  assumes "reserve_all_except_first_8kb marker z s = Some (True, s')"
  shows "s_reserved s'"
  using assms by (auto simp add: reserve_eq reserve_with_bounds_eq split: if_splits)

lemma reserve_commit:
  assumes "\<not> s_reserved s" "reserve_all_except_first_8kb marker z s = Some (True, s')"
    "effective_ram_bounds marker s = (b, sz)"
  shows "s_reserved_region s' = \<lparr> r_start = usable_start_of b, r_end = usable_end_of b sz \<rparr>"
    "usable_start_of b < usable_end_of b sz" "RESERVED_PREFIX < sz"
    "ram s' = (if z then zero_fill (usable_start_of b) (usable_end_of b sz) (ram s) else ram s)"
  using assms by (auto simp add: reserve_eq reserve_with_bounds_eq split: if_splits)

lemma effective_explicit:
  "s_explicit_bounds_set s \<Longrightarrow> effective_ram_bounds marker s = (s_ram_base s, s_ram_size s)"
  by (simp add: effective_ram_bounds_def)

lemma effective_cong:
  assumes "s_ram_base s' = s_ram_base s" "s_ram_size s' = s_ram_size s"
    "s_explicit_bounds_set s' = s_explicit_bounds_set s"
  shows "effective_ram_bounds marker s' = effective_ram_bounds marker s"
  using assms by (simp add: effective_ram_bounds_def Let_def)

lemma state_inv_initial: "state_inv (initial_state m)"
  by (simp add: state_inv_def initial_state_def)

lemma state_inv_set: "state_inv s \<Longrightarrow> state_inv (set_ram_bounds b sz s)"
  by (simp add: state_inv_def set_ram_bounds_def)

lemma state_inv_reserve:
  assumes "state_inv s" "reserve_all_except_first_8kb marker z s = Some (r, s')"
  shows "state_inv s'"
proof (cases "s_reserved s")
  case True
  with assms show ?thesis by (simp add: reserve_eq)
next
  case False
  show ?thesis
  proof (cases r)
    case False
    with assms(2) have "s' = s" by (auto dest: reserve_False(1))
    with assms(1) show ?thesis by simp
  next
    case True
    obtain b sz where e: "effective_ram_bounds marker s = (b, sz)" by (cases "effective_ram_bounds marker s")
    have t: "reserve_all_except_first_8kb marker z s = Some (True, s')"
      using assms(2) True by simp
    note c = reserve_commit [OF \<open>\<not> s_reserved s\<close> t e]
    have "s_reserved s'" using t by (rule reserve_True)
    moreover have "\<not> s_explicit_bounds_set s' \<longrightarrow>
         s_ram_base s' = DEFAULT_RAM_BASE \<and> s_ram_size s' = DEFAULT_RAM_SIZE"
      using assms by (simp add: state_inv_def reserve_fields)
    ultimately show ?thesis
      using c(1,2) by (simp add: state_inv_def usable_start_of_aligned usable_end_of_aligned)
  qed
qed

lemma run_state_inv: "state_inv s \<Longrightarrow> run marker cs s = Some s' \<Longrightarrow> state_inv s'"
proof (induction cs arbitrary: s)
  case Nil
  thus ?case by simp
next
  case (Cons c cs)
  show ?case
  proof (cases c)
    case (Set_ram_bounds b sz)
    with Cons.prems have "run marker cs (set_ram_bounds b sz s) = Some s'" by simp
    with Cons.prems(1) show ?thesis by (blast intro: Cons.IH state_inv_set)
  next
    case (Reserve z)
    with Cons.prems obtain r s1 where
      "reserve_all_except_first_8kb marker z s = Some (r, s1)" "run marker cs s1 = Some s'"
      by (auto split: option.splits)
    with Cons show ?thesis by (blast intro: state_inv_reserve)
  next
    case Get_reserved_region
    with Cons show ?thesis by simp
  qed
qed

lemma run_initial_inv: "run marker cs (initial_state m) = Some s \<Longrightarrow> state_inv s"
  by (rule run_state_inv [OF state_inv_initial])

lemma run_total: "\<exists>s'. run marker cs s = Some s'"
proof (induction cs arbitrary: s)
  case Nil
  show ?case by simp
next
  case (Cons c cs)
  show ?case
  proof (cases c)
    case (Reserve z)
    obtain r s1 where "reserve_all_except_first_8kb marker z s = Some (r, s1)"
      using reserve_total by blast
    with Reserve Cons.IH [of s1] show ?thesis by simp
  qed (simp_all add: Cons.IH)
qed

lemma run_bounds:
  "run marker cs s = Some s' \<Longrightarrow>
     (s_ram_base s', s_ram_size s', s_explicit_bounds_set s') =
       (case configured_bounds cs of
          Some (b, sz) \<Rightarrow> (b, sz, True)
        | None \<Rightarrow> (s_ram_base s, s_ram_size s, s_explicit_bounds_set s))"
proof (induction cs arbitrary: s)
  case Nil
  thus ?case by simp
next
  case (Cons c cs)
  show ?case
  proof (cases c)
    case (Set_ram_bounds b sz)
    with Cons.prems have "run marker cs (set_ram_bounds b sz s) = Some s'" by simp
    from Cons.IH [OF this] Set_ram_bounds show ?thesis
      by (simp add: set_ram_bounds_def split: option.splits)
  next
    case (Reserve z)
    with Cons.prems obtain r s1 where
      r: "reserve_all_except_first_8kb marker z s = Some (r, s1)" and "run marker cs s1 = Some s'"
      by (auto split: option.splits)
    from Cons.IH [OF this(2)] Reserve show ?thesis
      by (simp add: reserve_fields [OF r] split: option.splits)
  next
    case Get_reserved_region
    with Cons.prems have "run marker cs s = Some s'" by simp
    from Cons.IH [OF this] Get_reserved_region show ?thesis
      by (simp split: option.splits)
  qed
qed

section \<open>The claims\<close>

text \<open>
  C1. Precedence of the sources of the RAM bounds. In the state a sequence of calls
  reaches from load time, the bounds a reservation works with are the arguments of the
  last \<^verbatim>\<open>set_ram_bounds\<close> call when there was one, whatever the marker is (any other
  marker gives the same bounds and the same result of the call); with no such call
  they come from the marker when it is available and above the compile-time base, and
  are the compile-time defaults otherwise. A call that finds no committed reservation
  works with exactly these bounds.
\<close>

theorem ram_bounds_precedence:
  assumes "run marker cs (initial_state m) = Some s"
  shows "effective_ram_bounds marker s =
           (case configured_bounds cs of
              Some (b, sz) \<Rightarrow> (b, sz)
            | None \<Rightarrow>
                if compute_ram_end_from_linker marker \<noteq> 0 \<and>
                   DEFAULT_RAM_BASE < compute_ram_end_from_linker marker
                then (DEFAULT_RAM_BASE, compute_ram_end_from_linker marker - DEFAULT_RAM_BASE)
                else (DEFAULT_RAM_BASE, DEFAULT_RAM_SIZE)) \<and>
         (configured_bounds cs \<noteq> None \<longrightarrow>
            effective_ram_bounds other s = effective_ram_bounds marker s \<and>
            reserve_all_except_first_8kb other z s = reserve_all_except_first_8kb marker z s) \<and>
         (\<not> s_reserved s \<longrightarrow>
            reserve_all_except_first_8kb marker z s =
              reserve_with_bounds (fst (effective_ram_bounds marker s))
                (snd (effective_ram_bounds marker s)) z s)"
proof -
  note b = run_bounds [OF assms]
  have i: "s_ram_base (initial_state m) = DEFAULT_RAM_BASE"
    "s_ram_size (initial_state m) = DEFAULT_RAM_SIZE"
    "\<not> s_explicit_bounds_set (initial_state m)"
    by (simp_all add: initial_state_def)
  have 1: "effective_ram_bounds marker s =
           (case configured_bounds cs of
              Some (b, sz) \<Rightarrow> (b, sz)
            | None \<Rightarrow>
                if compute_ram_end_from_linker marker \<noteq> 0 \<and>
                   DEFAULT_RAM_BASE < compute_ram_end_from_linker marker
                then (DEFAULT_RAM_BASE, compute_ram_end_from_linker marker - DEFAULT_RAM_BASE)
                else (DEFAULT_RAM_BASE, DEFAULT_RAM_SIZE))"
    using b i by (auto simp add: effective_ram_bounds_def Let_def split: option.splits)
  have 2: "effective_ram_bounds other s = effective_ram_bounds marker s"
    if "configured_bounds cs \<noteq> None" for other
    using b that by (auto simp add: effective_explicit split: option.splits)
  have 3: "reserve_all_except_first_8kb other z s = reserve_all_except_first_8kb marker z s"
    if "configured_bounds cs \<noteq> None" for other
    using 2 [OF that, of other] by (simp add: reserve_eq)
  have 4: "\<not> s_reserved s \<longrightarrow>
            reserve_all_except_first_8kb marker z s =
              reserve_with_bounds (fst (effective_ram_bounds marker s))
                (snd (effective_ram_bounds marker s)) z s"
    by (simp add: reserve_eq)
  from 1 2 3 4 show ?thesis by blast
qed

text \<open>The bounds \<open>0x1000\<close>, \<open>0x2010\<close> are configured and a marker at \<open>0x40000000\<close>,
  which would give a far larger size, is present.\<close>

theorem ram_bounds_precedence_witness:
  "run (Some 0x40000000) [Set_ram_bounds 0x1000 0x2010] (initial_state stale_memory) =
     Some (set_ram_bounds 0x1000 0x2010 (initial_state stale_memory)) \<and>
   effective_ram_bounds (Some 0x40000000) (set_ram_bounds 0x1000 0x2010 (initial_state stale_memory)) =
     (0x1000, 0x2010) \<and>
   effective_ram_bounds None (set_ram_bounds 0x1000 0x2010 (initial_state stale_memory)) =
     effective_ram_bounds (Some 0x40000000) (set_ram_bounds 0x1000 0x2010 (initial_state stale_memory))"
proof -
  have r: "run (Some 0x40000000) [Set_ram_bounds 0x1000 0x2010] (initial_state stale_memory) =
     Some (set_ram_bounds 0x1000 0x2010 (initial_state stale_memory))"
    by simp
  have c: "configured_bounds [Set_ram_bounds 0x1000 0x2010] = Some (0x1000, 0x2010)"
    by simp
  note t = ram_bounds_precedence [OF r, where z = False and other = None, unfolded c]
  from t r show ?thesis by simp
qed

lemma reserve_configured_example:
  "reserve_all_except_first_8kb marker False (set_ram_bounds 0x1000 0x2010 (initial_state stale_memory)) =
     Some (True, (set_ram_bounds 0x1000 0x2010 (initial_state stale_memory))
       \<lparr> s_reserved_region := \<lparr> r_start = 0x3000, r_end = 0x3010 \<rparr>, s_reserved := True \<rparr>)"
  by (simp add: reserve_eq reserve_with_bounds_eq effective_ram_bounds_def set_ram_bounds_def
      initial_state_def usable_start_of_def usable_end_of_def ALIGN_def RESERVED_PREFIX_def Let_def)

text \<open>
  C2. Idempotence. In every state in which a reservation has committed, a further
  call returns true and leaves the whole state as it is: the committed region, the
  other static variables and the memory (so nothing is zeroed), whatever
  \<^verbatim>\<open>zero_memory\<close> and the marker are. A call that returns true leaves such a state.
\<close>

theorem reserve_idempotent:
  "(s_reserved s \<longrightarrow> reserve_all_except_first_8kb marker z s = Some (True, s)) \<and>
   (reserve_all_except_first_8kb marker z s = Some (True, s') \<longrightarrow>
      s_reserved s' \<and> reserve_all_except_first_8kb other z' s' = Some (True, s'))"
proof -
  have "s_reserved s'" "reserve_all_except_first_8kb other z' s' = Some (True, s')"
    if "reserve_all_except_first_8kb marker z s = Some (True, s')"
    using reserve_True [OF that] by (simp_all add: reserve_eq)
  thus ?thesis by (simp add: reserve_eq)
qed

theorem reserve_idempotent_witness:
  "reserve_all_except_first_8kb None False (set_ram_bounds 0x1000 0x2010 (initial_state stale_memory)) =
     Some (True, (set_ram_bounds 0x1000 0x2010 (initial_state stale_memory))
       \<lparr> s_reserved_region := \<lparr> r_start = 0x3000, r_end = 0x3010 \<rparr>, s_reserved := True \<rparr>) \<and>
   reserve_all_except_first_8kb (Some 0x40000000) True
     ((set_ram_bounds 0x1000 0x2010 (initial_state stale_memory))
       \<lparr> s_reserved_region := \<lparr> r_start = 0x3000, r_end = 0x3010 \<rparr>, s_reserved := True \<rparr>) =
     Some (True, (set_ram_bounds 0x1000 0x2010 (initial_state stale_memory))
       \<lparr> s_reserved_region := \<lparr> r_start = 0x3000, r_end = 0x3010 \<rparr>, s_reserved := True \<rparr>)"
  using reserve_idempotent [where marker = None and z = False and other = "Some 0x40000000"
      and z' = True, THEN conjunct2, THEN mp, OF reserve_configured_example]
    reserve_configured_example [of None]
  by simp





lemma configured_bounds_None:
  "configured_bounds cs = None \<longleftrightarrow> \<not> list_ex is_set_ram_bounds cs"
  by (induction cs) (auto split: option.splits call.splits)

text \<open>
  C5. Marker fallback. In a state reached from load time with no explicit bounds
  set: a marker that is absent, at address zero, or not strictly above the
  compile-time base gives the compile-time default base and size, exactly as an absent
  marker does (same bounds, same result of the call); a marker at an address \<open>a\<close>
  strictly above the base gives the base \<^verbatim>\<open>DEFAULT_RAM_BASE\<close> and the size
  \<open>a - DEFAULT_RAM_BASE\<close>, and the call works with these.
\<close>

theorem marker_fallback:
  assumes "run marker cs (initial_state m) = Some s" and "\<not> s_explicit_bounds_set s"
  shows "((marker = None \<or> marker = Some 0 \<or> (marker = Some a \<and> a \<le> DEFAULT_RAM_BASE)) \<longrightarrow>
            effective_ram_bounds marker s = (DEFAULT_RAM_BASE, DEFAULT_RAM_SIZE) \<and>
            effective_ram_bounds marker s = effective_ram_bounds None s \<and>
            reserve_all_except_first_8kb marker z s = reserve_all_except_first_8kb None z s) \<and>
         (marker = Some a \<and> DEFAULT_RAM_BASE < a \<longrightarrow>
            effective_ram_bounds marker s = (DEFAULT_RAM_BASE, a - DEFAULT_RAM_BASE) \<and>
            reserve_all_except_first_8kb marker z s =
              (if s_reserved s then Some (True, s)
               else reserve_with_bounds DEFAULT_RAM_BASE (a - DEFAULT_RAM_BASE) z s))"
proof -
  have "state_inv s" using assms(1) by (rule run_initial_inv)
  with assms(2) have d: "s_ram_base s = DEFAULT_RAM_BASE" "s_ram_size s = DEFAULT_RAM_SIZE"
    by (simp_all add: state_inv_def)
  have n: "effective_ram_bounds None s = (DEFAULT_RAM_BASE, DEFAULT_RAM_SIZE)"
    using d assms(2) by (simp add: effective_ram_bounds_def compute_ram_end_from_linker_def)
  have 1: "effective_ram_bounds marker s = (DEFAULT_RAM_BASE, DEFAULT_RAM_SIZE)"
    if "marker = None \<or> marker = Some 0 \<or> (marker = Some a \<and> a \<le> DEFAULT_RAM_BASE)"
    using that d assms(2)
    by (auto simp add: effective_ram_bounds_def compute_ram_end_from_linker_def Let_def)
  have 2: "effective_ram_bounds marker s = (DEFAULT_RAM_BASE, a - DEFAULT_RAM_BASE)"
    if "marker = Some a \<and> DEFAULT_RAM_BASE < a"
    using that d assms(2)
    by (auto simp add: effective_ram_bounds_def compute_ram_end_from_linker_def Let_def)
  from 1 2 n show ?thesis by (auto simp add: reserve_eq)
qed

theorem marker_fallback_witness:
  "run (Some 0x3F800000) [] (initial_state stale_memory) = Some (initial_state stale_memory) \<and>
   \<not> s_explicit_bounds_set (initial_state stale_memory) \<and>
   (0x3F800000 :: uintptr_t) \<le> DEFAULT_RAM_BASE \<and>
   effective_ram_bounds (Some 0x3F800000) (initial_state stale_memory) =
     (DEFAULT_RAM_BASE, DEFAULT_RAM_SIZE) \<and>
   run (Some 0x3F900002) [] (initial_state stale_memory) = Some (initial_state stale_memory) \<and>
   DEFAULT_RAM_BASE < (0x3F900002 :: uintptr_t) \<and>
   effective_ram_bounds (Some 0x3F900002) (initial_state stale_memory) =
     (DEFAULT_RAM_BASE, 0x100002)"
proof -
  have r: "run mk [] (initial_state stale_memory) = Some (initial_state stale_memory)" for mk
    by simp
  have n: "\<not> s_explicit_bounds_set (initial_state stale_memory)"
    by (simp add: initial_state_def)
  have le: "(0x3F800000 :: uintptr_t) \<le> DEFAULT_RAM_BASE" by (simp add: DEFAULT_RAM_BASE_def)
  have lt: "DEFAULT_RAM_BASE < (0x3F900002 :: uintptr_t)" by (simp add: DEFAULT_RAM_BASE_def)
  have a: "effective_ram_bounds (Some 0x3F800000) (initial_state stale_memory) =
     (DEFAULT_RAM_BASE, DEFAULT_RAM_SIZE)"
    using marker_fallback [OF r n, where marker = "Some 0x3F800000" and a = "0x3F800000",
        THEN conjunct1] le
    by simp
  have "effective_ram_bounds (Some 0x3F900002) (initial_state stale_memory) =
     (DEFAULT_RAM_BASE, 0x3F900002 - DEFAULT_RAM_BASE)"
    using marker_fallback [OF r n, where marker = "Some 0x3F900002" and a = "0x3F900002",
        THEN conjunct2] lt
    by simp
  hence b: "effective_ram_bounds (Some 0x3F900002) (initial_state stale_memory) =
     (DEFAULT_RAM_BASE, 0x100002)"
    by (simp add: DEFAULT_RAM_BASE_def)
  from r n le lt a b show ?thesis by blast
qed

lemma load32_zero_fill:
  fixes a lo hi :: "32 word"
  assumes "unat lo \<le> unat a" "unat a + 4 \<le> unat hi"
  shows "load32 (zero_fill lo hi m) a = 0"
proof -
  have e: "unat hi < 4294967296" by (rule unat_lt32)
  have u: "unat (a + 1) = unat a + 1" "unat (a + 2) = unat a + 2" "unat (a + 3) = unat a + 3"
    using assms e by (simp_all add: unat_word_ariths)
  thus ?thesis using assms
    by (simp add: load32_def zero_fill_def word_le_nat_alt word_less_nat_alt)
qed

lemma mod_2p32_mod_4: "(x::nat) mod 4294967296 mod 4 = x mod 4"
  by (rule mod_mod_cancel) simp

lemma aligned_add:
  fixes b k :: "32 word"
  assumes "unat b mod 4 = 0" "unat k mod 4 = 0"
  shows "unat (b + k) mod 4 = 0"
proof -
  have "unat (b + k) mod 4 = (unat b + unat k) mod 4"
    by (simp add: unat_word_ariths mod_2p32_mod_4)
  thus ?thesis using assms by presburger
qed

lemma usable_start_of_aligned_base:
  assumes "unat b mod 4 = 0"
  shows "usable_start_of b = b + RESERVED_PREFIX"
proof -
  have "unat (b + RESERVED_PREFIX) mod 4 = 0"
    using assms by (intro aligned_add) (simp_all add: RESERVED_PREFIX_def)
  thus ?thesis by (simp add: usable_start_of_def ALIGN_def word_mod_4_iff)
qed

lemma usable_end_of_aligned_sum:
  assumes "unat (b + sz) mod 4 = 0"
  shows "usable_end_of b sz = b + sz"
  using assms by (simp add: usable_end_of_def ALIGN_def word_mod_4_iff)

lemma aligned_less_plus_4:
  fixes x :: "32 word"
  assumes "unat x mod 4 = 0" "x + 4 \<noteq> 0"
  shows "x < x + 4" "unat (x + 4) - unat x = 4"
proof -
  have l: "unat x < 4294967296" by (rule unat_lt32)
  have "unat x \<noteq> 4294967292"
  proof
    assume "unat x = 4294967292"
    hence "unat (x + 4) = 0" by (simp add: unat_word_ariths)
    hence "x + 4 = 0" by (simp add: unat_eq_0)
    with assms(2) show False by simp
  qed
  with assms(1) l have "unat x + 4 < 4294967296" by presburger
  hence u: "unat (x + 4) = unat x + 4" by (simp add: unat_word_ariths)
  show "x < x + 4" using u by (simp add: word_less_nat_alt)
  show "unat (x + 4) - unat x = 4" using u by simp
qed

section \<open>Loads and stores\<close>

lemma bytes_recombine:
  "ucast (ucast (v :: 32 word) :: 8 word) OR
   push_bit 8 (ucast (ucast (drop_bit 8 v) :: 8 word)) OR
   push_bit 16 (ucast (ucast (drop_bit 16 v) :: 8 word)) OR
   push_bit 24 (ucast (ucast (drop_bit 24 v) :: 8 word)) = v"
  (is "?w = v")
proof (rule bit_word_eqI)
  fix n :: nat
  assume n: "n < LENGTH(32)"
  consider "n < 8" | "8 \<le> n" "n < 16" | "16 \<le> n" "n < 24" | "24 \<le> n"
    by linarith
  thus "bit ?w n = bit v n"
    using n by cases (auto simp add: bit_simps)
qed

lemma load32_store32_same: "load32 (store32 m p v) p = v"
  by (simp add: load32_def store32_def bytes_recombine)

lemma store32_other: "a \<notin> set (bytes4 p) \<Longrightarrow> store32 m p v a = m a"
  by (auto simp add: store32_def bytes4_def)

lemma store_bool_other: "a \<noteq> p \<Longrightarrow> store_bool m p v a = m a"
  by (simp add: store_bool_def)

lemma load_bool_store_bool_same: "load_bool (store_bool m p v) p = v"
  by (simp add: load_bool_def store_bool_def)

lemma zero_fill_other: "\<not> (lo \<le> a \<and> a < hi) \<Longrightarrow> zero_fill lo hi m a = m a"
  by (auto simp add: zero_fill_def)

lemma load32_cong: "(\<And>a. a \<in> set (bytes4 p) \<Longrightarrow> m' a = m a) \<Longrightarrow> load32 m' p = load32 m p"
  by (simp add: load32_def bytes4_def)

lemma load_bool_cong: "m' p = m p \<Longrightarrow> load_bool m' p = load_bool m p"
  by (simp add: load_bool_def)

lemma load32_store32_other:
  "set (bytes4 q) \<inter> set (bytes4 p) = {} \<Longrightarrow> load32 (store32 m p v) q = load32 m q"
  by (rule load32_cong, rule store32_other) blast

lemma load32_store32_other':
  "set (bytes4 p) \<inter> set (bytes4 q) = {} \<Longrightarrow> load32 (store32 m p v) q = load32 m q"
  by (rule load32_cong, rule store32_other) blast

lemma load32_store_bool_other:
  "p \<notin> set (bytes4 q) \<Longrightarrow> load32 (store_bool m p v) q = load32 m q"
  by (rule load32_cong, rule store_bool_other) blast

lemma load_bool_store32_other:
  "q \<notin> set (bytes4 p) \<Longrightarrow> load_bool (store32 m p v) q = load_bool m q"
  by (rule load_bool_cong, rule store32_other)

lemma load_bool_store_bool_other:
  "q \<noteq> p \<Longrightarrow> load_bool (store_bool m p v) q = load_bool m q"
  by (rule load_bool_cong, rule store_bool_other)

section \<open>The static variables in memory: what a call does\<close>

lemma wf_layout_cells:
  assumes "wf_layout L"
  shows "set (bytes4 (at_ram_base L)) \<inter> set (bytes4 (at_ram_size L)) = {}"
    "set (bytes4 (at_ram_base L)) \<inter> set (bytes4 (at_reserved_region L)) = {}"
    "set (bytes4 (at_ram_base L)) \<inter> set (bytes4 (at_reserved_region L + 4)) = {}"
    "set (bytes4 (at_ram_size L)) \<inter> set (bytes4 (at_reserved_region L)) = {}"
    "set (bytes4 (at_ram_size L)) \<inter> set (bytes4 (at_reserved_region L + 4)) = {}"
    "set (bytes4 (at_reserved_region L)) \<inter> set (bytes4 (at_reserved_region L + 4)) = {}"
    "at_reserved L \<notin> set (bytes4 (at_ram_base L))"
    "at_reserved L \<notin> set (bytes4 (at_ram_size L))"
    "at_reserved L \<notin> set (bytes4 (at_reserved_region L))"
    "at_reserved L \<notin> set (bytes4 (at_reserved_region L + 4))"
    "at_explicit_bounds_set L \<notin> set (bytes4 (at_ram_base L))"
    "at_explicit_bounds_set L \<notin> set (bytes4 (at_ram_size L))"
    "at_explicit_bounds_set L \<notin> set (bytes4 (at_reserved_region L))"
    "at_explicit_bounds_set L \<notin> set (bytes4 (at_reserved_region L + 4))"
    "at_reserved L \<noteq> at_explicit_bounds_set L"
  using assms by (simp_all add: wf_layout_def statics_bytes_def Int_Un_distrib)

lemma statics_outside_cells:
  assumes "statics_outside L lo hi"
  shows "a \<in> set (bytes4 (at_ram_base L)) \<Longrightarrow> \<not> (lo \<le> a \<and> a < hi)"
    "a \<in> set (bytes4 (at_ram_size L)) \<Longrightarrow> \<not> (lo \<le> a \<and> a < hi)"
    "a \<in> set (bytes4 (at_reserved_region L)) \<Longrightarrow> \<not> (lo \<le> a \<and> a < hi)"
    "a \<in> set (bytes4 (at_reserved_region L + 4)) \<Longrightarrow> \<not> (lo \<le> a \<and> a < hi)"
    "\<not> (lo \<le> at_reserved L \<and> at_reserved L < hi)"
    "\<not> (lo \<le> at_explicit_bounds_set L \<and> at_explicit_bounds_set L < hi)"
  using assms by (simp_all add: statics_outside_def statics_bytes_def list_all_iff)

lemma set_ram_bounds_at_other:
  assumes "a \<notin> set (bytes4 (at_ram_base L))" "a \<notin> set (bytes4 (at_ram_size L))"
    "a \<noteq> at_explicit_bounds_set L"
  shows "set_ram_bounds_at L b sz m a = m a"
  using assms by (simp add: set_ram_bounds_at_def store_bool_other store32_other)

lemma committed_memory_other:
  assumes "a \<notin> set (bytes4 (at_reserved_region L))" "a \<notin> set (bytes4 (at_reserved_region L + 4))"
    "a \<noteq> at_reserved L" "z \<longrightarrow> \<not> (lo \<le> a \<and> a < hi)"
  shows "committed_memory L lo hi z m a = m a"
  using assms
  by (simp add: committed_memory_def store_bool_other store32_other zero_fill_other)

lemma cells_apart:
  assumes "wf_layout L"
  shows "a \<in> set (bytes4 (at_ram_base L)) \<Longrightarrow>
           a \<notin> set (bytes4 (at_ram_size L)) \<and> a \<notin> set (bytes4 (at_reserved_region L)) \<and>
           a \<notin> set (bytes4 (at_reserved_region L + 4)) \<and> a \<noteq> at_reserved L \<and>
           a \<noteq> at_explicit_bounds_set L"
    and "a \<in> set (bytes4 (at_ram_size L)) \<Longrightarrow>
           a \<notin> set (bytes4 (at_ram_base L)) \<and> a \<notin> set (bytes4 (at_reserved_region L)) \<and>
           a \<notin> set (bytes4 (at_reserved_region L + 4)) \<and> a \<noteq> at_reserved L \<and>
           a \<noteq> at_explicit_bounds_set L"
    and "a \<in> set (bytes4 (at_reserved_region L)) \<Longrightarrow>
           a \<notin> set (bytes4 (at_ram_base L)) \<and> a \<notin> set (bytes4 (at_ram_size L)) \<and>
           a \<notin> set (bytes4 (at_reserved_region L + 4)) \<and> a \<noteq> at_reserved L \<and>
           a \<noteq> at_explicit_bounds_set L"
    and "a \<in> set (bytes4 (at_reserved_region L + 4)) \<Longrightarrow>
           a \<notin> set (bytes4 (at_ram_base L)) \<and> a \<notin> set (bytes4 (at_ram_size L)) \<and>
           a \<notin> set (bytes4 (at_reserved_region L)) \<and> a \<noteq> at_reserved L \<and>
           a \<noteq> at_explicit_bounds_set L"
    and "at_reserved L \<notin> set (bytes4 (at_ram_base L)) \<and>
         at_reserved L \<notin> set (bytes4 (at_ram_size L)) \<and>
         at_reserved L \<notin> set (bytes4 (at_reserved_region L)) \<and>
         at_reserved L \<notin> set (bytes4 (at_reserved_region L + 4)) \<and>
         at_reserved L \<noteq> at_explicit_bounds_set L"
    and "at_explicit_bounds_set L \<notin> set (bytes4 (at_ram_base L)) \<and>
         at_explicit_bounds_set L \<notin> set (bytes4 (at_ram_size L)) \<and>
         at_explicit_bounds_set L \<notin> set (bytes4 (at_reserved_region L)) \<and>
         at_explicit_bounds_set L \<notin> set (bytes4 (at_reserved_region L + 4)) \<and>
         at_explicit_bounds_set L \<noteq> at_reserved L"
proof -
  note w = wf_layout_cells [OF assms]
  show "a \<in> set (bytes4 (at_ram_base L)) \<Longrightarrow>
           a \<notin> set (bytes4 (at_ram_size L)) \<and> a \<notin> set (bytes4 (at_reserved_region L)) \<and>
           a \<notin> set (bytes4 (at_reserved_region L + 4)) \<and> a \<noteq> at_reserved L \<and>
           a \<noteq> at_explicit_bounds_set L"
    using w(1,2,3,7,11) by blast
  show "a \<in> set (bytes4 (at_ram_size L)) \<Longrightarrow>
           a \<notin> set (bytes4 (at_ram_base L)) \<and> a \<notin> set (bytes4 (at_reserved_region L)) \<and>
           a \<notin> set (bytes4 (at_reserved_region L + 4)) \<and> a \<noteq> at_reserved L \<and>
           a \<noteq> at_explicit_bounds_set L"
    using w(1,4,5,8,12) by blast
  show "a \<in> set (bytes4 (at_reserved_region L)) \<Longrightarrow>
           a \<notin> set (bytes4 (at_ram_base L)) \<and> a \<notin> set (bytes4 (at_ram_size L)) \<and>
           a \<notin> set (bytes4 (at_reserved_region L + 4)) \<and> a \<noteq> at_reserved L \<and>
           a \<noteq> at_explicit_bounds_set L"
    using w(2,4,6,9,13) by blast
  show "a \<in> set (bytes4 (at_reserved_region L + 4)) \<Longrightarrow>
           a \<notin> set (bytes4 (at_ram_base L)) \<and> a \<notin> set (bytes4 (at_ram_size L)) \<and>
           a \<notin> set (bytes4 (at_reserved_region L)) \<and> a \<noteq> at_reserved L \<and>
           a \<noteq> at_explicit_bounds_set L"
    using w(3,5,6,10,14) by blast
  show "at_reserved L \<notin> set (bytes4 (at_ram_base L)) \<and>
         at_reserved L \<notin> set (bytes4 (at_ram_size L)) \<and>
         at_reserved L \<notin> set (bytes4 (at_reserved_region L)) \<and>
         at_reserved L \<notin> set (bytes4 (at_reserved_region L + 4)) \<and>
         at_reserved L \<noteq> at_explicit_bounds_set L"
    using w(7,8,9,10,15) by simp
  show "at_explicit_bounds_set L \<notin> set (bytes4 (at_ram_base L)) \<and>
         at_explicit_bounds_set L \<notin> set (bytes4 (at_ram_size L)) \<and>
         at_explicit_bounds_set L \<notin> set (bytes4 (at_reserved_region L)) \<and>
         at_explicit_bounds_set L \<notin> set (bytes4 (at_reserved_region L + 4)) \<and>
         at_explicit_bounds_set L \<noteq> at_reserved L"
    using w(11,12,13,14,15) by simp
qed

lemma statics_of_set_ram_bounds_at:
  assumes "wf_layout L"
  shows "statics_of L (set_ram_bounds_at L b sz m) =
           (set_ram_bounds b sz (statics_of L m))\<lparr> ram := set_ram_bounds_at L b sz m \<rparr>"
proof -
  note c = cells_apart [OF assms]
  let ?m' = "set_ram_bounds_at L b sz m"
  have "?m' a = store32 m (at_ram_base L) b a" if "a \<in> set (bytes4 (at_ram_base L))" for a
    using c(1) [OF that] by (simp add: set_ram_bounds_at_def store_bool_other store32_other)
  hence "load32 ?m' (at_ram_base L) = load32 (store32 m (at_ram_base L) b) (at_ram_base L)"
    by (rule load32_cong)
  hence 1: "load32 ?m' (at_ram_base L) = b" by (simp add: load32_store32_same)
  have "?m' a = store32 (store32 m (at_ram_base L) b) (at_ram_size L) sz a"
    if "a \<in> set (bytes4 (at_ram_size L))" for a
    using c(2) [OF that] by (simp add: set_ram_bounds_at_def store_bool_other)
  hence "load32 ?m' (at_ram_size L) =
        load32 (store32 (store32 m (at_ram_base L) b) (at_ram_size L) sz) (at_ram_size L)"
    by (rule load32_cong)
  hence 2: "load32 ?m' (at_ram_size L) = sz" by (simp add: load32_store32_same)
  have "?m' a = m a" if "a \<in> set (bytes4 (at_reserved_region L))" for a
    using c(3) [OF that] by (simp add: set_ram_bounds_at_other)
  hence 3: "load32 ?m' (at_reserved_region L) = load32 m (at_reserved_region L)"
    by (rule load32_cong)
  have "?m' a = m a" if "a \<in> set (bytes4 (at_reserved_region L + 4))" for a
    using c(4) [OF that] by (simp add: set_ram_bounds_at_other)
  hence 4: "load32 ?m' (at_reserved_region L + 4) = load32 m (at_reserved_region L + 4)"
    by (rule load32_cong)
  have "?m' (at_reserved L) = m (at_reserved L)"
    using c(5) by (simp add: set_ram_bounds_at_other)
  hence 5: "load_bool ?m' (at_reserved L) = load_bool m (at_reserved L)"
    by (rule load_bool_cong)
  have 6: "load_bool ?m' (at_explicit_bounds_set L)"
    by (simp add: set_ram_bounds_at_def load_bool_store_bool_same)
  show ?thesis by (simp add: statics_of_def set_ram_bounds_def 1 2 3 4 5 6)
qed

lemma region_of_committed_memory:
  assumes "wf_layout L"
    and "z \<Longrightarrow> list_all (\<lambda>a. \<not> (lo \<le> a \<and> a < hi))
           (bytes4 (at_reserved_region L) @ bytes4 (at_reserved_region L + 4))"
  shows "load32 (committed_memory L lo hi z m) (at_reserved_region L) = lo"
    and "load32 (committed_memory L lo hi z m) (at_reserved_region L + 4) = hi"
proof -
  note c = cells_apart [OF assms(1)]
  let ?m' = "committed_memory L lo hi z m"
  have o: "z \<longrightarrow> \<not> (lo \<le> a \<and> a < hi)"
    if "a \<in> set (bytes4 (at_reserved_region L)) \<or> a \<in> set (bytes4 (at_reserved_region L + 4))"
    for a
    using assms(2) that by (auto simp add: list_all_iff)
  have "?m' a = store32 m (at_reserved_region L) lo a"
    if "a \<in> set (bytes4 (at_reserved_region L))" for a
    using c(3) [OF that] o [of a] that
    by (auto simp add: committed_memory_def store_bool_other store32_other zero_fill_other)
  hence "load32 ?m' (at_reserved_region L) =
        load32 (store32 m (at_reserved_region L) lo) (at_reserved_region L)"
    by (rule load32_cong)
  thus "load32 ?m' (at_reserved_region L) = lo" by (simp add: load32_store32_same)
  have "?m' a = store32 (store32 m (at_reserved_region L) lo) (at_reserved_region L + 4) hi a"
    if "a \<in> set (bytes4 (at_reserved_region L + 4))" for a
    using c(4) [OF that] o [of a] that
    by (auto simp add: committed_memory_def store_bool_other zero_fill_other)
  hence "load32 ?m' (at_reserved_region L + 4) =
        load32 (store32 (store32 m (at_reserved_region L) lo) (at_reserved_region L + 4) hi)
          (at_reserved_region L + 4)"
    by (rule load32_cong)
  thus "load32 ?m' (at_reserved_region L + 4) = hi" by (simp add: load32_store32_same)
qed

lemma statics_of_committed_memory:
  assumes "wf_layout L" "z \<longrightarrow> statics_outside L lo hi"
  shows "statics_of L (committed_memory L lo hi z m) =
           (statics_of L m)\<lparr> s_reserved_region := \<lparr> r_start = lo, r_end = hi \<rparr>,
              s_reserved := True, ram := committed_memory L lo hi z m \<rparr>"
proof -
  note c = cells_apart [OF assms(1)]
  let ?m' = "committed_memory L lo hi z m"
  have o: "z \<Longrightarrow> statics_outside L lo hi" using assms(2) by simp
  have "?m' a = m a" if "a \<in> set (bytes4 (at_ram_base L))" for a
    using c(1) [OF that] statics_outside_cells(1) [OF o that]
    by (intro committed_memory_other) auto
  hence 1: "load32 ?m' (at_ram_base L) = load32 m (at_ram_base L)"
    by (rule load32_cong)
  have "?m' a = m a" if "a \<in> set (bytes4 (at_ram_size L))" for a
    using c(2) [OF that] statics_outside_cells(2) [OF o that]
    by (intro committed_memory_other) auto
  hence 2: "load32 ?m' (at_ram_size L) = load32 m (at_ram_size L)"
    by (rule load32_cong)
  have r: "list_all (\<lambda>a. \<not> (lo \<le> a \<and> a < hi))
           (bytes4 (at_reserved_region L) @ bytes4 (at_reserved_region L + 4))" if z
    using o [OF that] by (simp add: statics_outside_def statics_bytes_def)
  note 3 = region_of_committed_memory [OF assms(1) r]
  have 5: "load_bool ?m' (at_reserved L)"
    by (simp add: committed_memory_def load_bool_store_bool_same)
  have "?m' (at_explicit_bounds_set L) = m (at_explicit_bounds_set L)"
    using c(6) statics_outside_cells(6) [OF o]
    by (intro committed_memory_other) auto
  hence 6: "load_bool ?m' (at_explicit_bounds_set L) = load_bool m (at_explicit_bounds_set L)"
    by (rule load_bool_cong)
  show ?thesis by (simp add: statics_of_def 1 2 3 5 6)
qed

lemma reserve_at_eq:
  "reserve_at L marker z m =
     (if s_reserved (statics_of L m) then Some (True, m)
      else if snd (effective_ram_bounds marker (statics_of L m)) \<le> RESERVED_PREFIX \<or>
              usable_end_of (fst (effective_ram_bounds marker (statics_of L m)))
                (snd (effective_ram_bounds marker (statics_of L m)))
              \<le> usable_start_of (fst (effective_ram_bounds marker (statics_of L m)))
      then Some (False, m)
      else Some (True,
        committed_memory L (usable_start_of (fst (effective_ram_bounds marker (statics_of L m))))
          (usable_end_of (fst (effective_ram_bounds marker (statics_of L m)))
             (snd (effective_ram_bounds marker (statics_of L m)))) z m))"
proof -
  obtain b sz where e: "effective_ram_bounds marker (statics_of L m) = (b, sz)"
    by (cases "effective_ram_bounds marker (statics_of L m)")
  have "zero_loop (usable_start_of b) (usable_end_of b sz) m1 =
        Some (zero_fill (usable_start_of b) (usable_end_of b sz) m1)"
    if "\<not> usable_end_of b sz \<le> usable_start_of b" for m1
    using that by (intro zero_loop_aligned usable_start_of_aligned usable_end_of_aligned) simp
  moreover have "s_reserved (statics_of L m) = load_bool m (at_reserved L)"
    by (simp add: statics_of_def)
  ultimately show ?thesis
    by (simp add: reserve_at_def e Let_def committed_memory_def)
qed

lemma reserve_at_total: "\<exists>r m'. reserve_at L marker z m = Some (r, m')"
  by (auto simp add: reserve_at_eq)

lemma state_inv_ram: "state_inv (s\<lparr> ram := m \<rparr>) = state_inv s"
  by (simp add: state_inv_def)

lemma loaded_statics: "loaded L m \<Longrightarrow> statics_of L m = initial_state m"
  by (simp add: loaded_def statics_of_def initial_state_def)

lemma reserve_at_simulated:
  assumes "wf_layout L" "zeroing_spares_statics L marker z m"
    and "reserve_at L marker z m = Some (r, m')"
  shows "\<exists>s'. reserve_all_except_first_8kb marker z (statics_of L m) = Some (r, s') \<and>
           statics_of L m' = s'\<lparr> ram := m' \<rparr>"
proof -
  obtain b sz where e: "effective_ram_bounds marker (statics_of L m) = (b, sz)"
    by (cases "effective_ram_bounds marker (statics_of L m)")
  have sr: "s_reserved (statics_of L m) = load_bool m (at_reserved L)"
    by (simp add: statics_of_def)
  show ?thesis
  proof (cases "s_reserved (statics_of L m) \<or> sz \<le> RESERVED_PREFIX \<or>
      usable_end_of b sz \<le> usable_start_of b")
    case True
    hence "m' = m" using assms(3) by (auto simp add: reserve_at_eq e split: if_splits)
    moreover have "(statics_of L m)\<lparr> ram := m \<rparr> = statics_of L m"
      by (simp add: statics_of_def)
    ultimately show ?thesis
      using True assms(3)
      by (auto simp add: reserve_at_eq reserve_eq reserve_with_bounds_eq e split: if_splits)
  next
    case False
    hence o: "z \<longrightarrow> statics_outside L (usable_start_of b) (usable_end_of b sz)"
      using assms(2) by (simp add: zeroing_spares_statics_def e sr not_le)
    from False assms(3) have m': "m' = committed_memory L (usable_start_of b) (usable_end_of b sz) z m"
      and r: "r"
      by (auto simp add: reserve_at_eq e)
    have "ram (statics_of L m) = m" by (simp add: statics_of_def)
    thus ?thesis
      using False r
      by (simp add: reserve_eq reserve_with_bounds_eq e m'
          statics_of_committed_memory [OF assms(1) o])
  qed
qed

lemma reserve_at_state_inv:
  assumes "wf_layout L" "zeroing_spares_statics L marker z m"
    and "reserve_at L marker z m = Some (r, m')" "state_inv (statics_of L m)"
  shows "state_inv (statics_of L m')"
proof -
  from reserve_at_simulated [OF assms(1,2,3)] obtain s' where
    s: "reserve_all_except_first_8kb marker z (statics_of L m) = Some (r, s')"
    "statics_of L m' = s'\<lparr> ram := m' \<rparr>"
    by blast
  from state_inv_reserve [OF assms(4) s(1)] s(2) show ?thesis
    by (simp add: state_inv_ram)
qed

lemma set_ram_bounds_at_state_inv:
  assumes "wf_layout L" "state_inv (statics_of L m)"
  shows "state_inv (statics_of L (set_ram_bounds_at L b sz m))"
  using state_inv_set [OF assms(2)]
  by (simp add: statics_of_set_ram_bounds_at [OF assms(1)] state_inv_ram)

lemma run_at_state_inv:
  assumes "wf_layout L"
  shows "state_inv (statics_of L m) \<Longrightarrow> run_spares_statics L marker cs m \<Longrightarrow>
         run_at L marker cs m = Some m' \<Longrightarrow> state_inv (statics_of L m')"
proof (induction cs arbitrary: m)
  case Nil
  thus ?case by simp
next
  case (Cons c cs)
  show ?case
  proof (cases c)
    case (Set_ram_bounds b sz)
    with Cons.prems have "run_at L marker cs (set_ram_bounds_at L b sz m) = Some m'"
      "run_spares_statics L marker cs (set_ram_bounds_at L b sz m)"
      by simp_all
    with set_ram_bounds_at_state_inv [OF assms Cons.prems(1)] show ?thesis
      by (blast intro: Cons.IH)
  next
    case (Reserve z)
    with Cons.prems obtain r m1 where
      r: "reserve_at L marker z m = Some (r, m1)" and "run_at L marker cs m1 = Some m'"
      by (auto split: option.splits)
    moreover from Reserve Cons.prems(2) r have "zeroing_spares_statics L marker z m"
      "run_spares_statics L marker cs m1"
      by simp_all
    ultimately show ?thesis
      using Cons.prems(1) by (blast intro: Cons.IH reserve_at_state_inv [OF assms])
  next
    case Get_reserved_region
    with Cons show ?thesis by simp
  qed
qed

lemma run_at_total: "\<exists>m'. run_at L marker cs m = Some m'"
proof (induction cs arbitrary: m)
  case Nil
  show ?case by simp
next
  case (Cons c cs)
  show ?case
  proof (cases c)
    case (Reserve z)
    obtain r m1 where "reserve_at L marker z m = Some (r, m1)"
      using reserve_at_total by blast
    with Reserve Cons.IH [of m1] show ?thesis by simp
  qed (simp_all add: Cons.IH)
qed

lemma get_reserved_region_at_statics:
  "get_reserved_region_at L m = s_reserved_region (statics_of L m)"
  by (simp add: get_reserved_region_at_def statics_of_def)

lemma run_at_committed:
  assumes "wf_layout L"
  shows "s_reserved (statics_of L m) \<Longrightarrow>
     \<exists>m'. run_at L marker cs m = Some m' \<and> s_reserved (statics_of L m') \<and>
       get_reserved_region_at L m' = get_reserved_region_at L m"
proof (induction cs arbitrary: m)
  case Nil
  thus ?case by simp
next
  case (Cons c cs)
  show ?case
  proof (cases c)
    case (Set_ram_bounds b sz)
    have "s_reserved (statics_of L (set_ram_bounds_at L b sz m))"
      using Cons.prems
      by (simp add: statics_of_set_ram_bounds_at [OF assms] set_ram_bounds_def)
    from Cons.IH [OF this] Set_ram_bounds show ?thesis
      by (simp add: get_reserved_region_at_statics statics_of_set_ram_bounds_at [OF assms]
          set_ram_bounds_def)
  next
    case (Reserve z)
    with Cons.IH [OF Cons.prems] Cons.prems show ?thesis by (simp add: reserve_at_eq)
  next
    case Get_reserved_region
    with Cons.IH [OF Cons.prems] show ?thesis by simp
  qed
qed

lemma run_at_uncommitted:
  assumes "wf_layout L"
  shows "\<not> s_reserved (statics_of L m) \<longrightarrow>
           s_reserved_region (statics_of L m) = \<lparr> r_start = 0, r_end = 0 \<rparr> \<Longrightarrow>
         run_at L marker cs m = Some m' \<Longrightarrow> \<not> s_reserved (statics_of L m') \<Longrightarrow>
         s_reserved_region (statics_of L m') = \<lparr> r_start = 0, r_end = 0 \<rparr>"
proof (induction cs arbitrary: m)
  case Nil
  thus ?case by simp
next
  case (Cons c cs)
  show ?case
  proof (cases c)
    case (Set_ram_bounds b sz)
    with Cons.prems have r: "run_at L marker cs (set_ram_bounds_at L b sz m) = Some m'"
      by simp
    have "\<not> s_reserved (statics_of L (set_ram_bounds_at L b sz m)) \<longrightarrow>
           s_reserved_region (statics_of L (set_ram_bounds_at L b sz m)) =
             \<lparr> r_start = 0, r_end = 0 \<rparr>"
      using Cons.prems(1)
      by (simp add: statics_of_set_ram_bounds_at [OF assms] set_ram_bounds_def)
    from Cons.IH [OF this r Cons.prems(3)] show ?thesis .
  next
    case (Reserve z)
    with Cons.prems obtain r m1 where
      r: "reserve_at L marker z m = Some (r, m1)" and r1: "run_at L marker cs m1 = Some m'"
      by (auto split: option.splits)
    have "\<not> s_reserved (statics_of L m1) \<longrightarrow>
           s_reserved_region (statics_of L m1) = \<lparr> r_start = 0, r_end = 0 \<rparr>"
    proof
      assume n: "\<not> s_reserved (statics_of L m1)"
      have "load_bool (committed_memory L lo hi z m) (at_reserved L)" for lo hi
        by (simp add: committed_memory_def load_bool_store_bool_same)
      hence "s_reserved (statics_of L (committed_memory L lo hi z m))" for lo hi
        by (simp add: statics_of_def)
      with r n have "m1 = m" by (auto simp add: reserve_at_eq split: if_splits)
      with n Cons.prems(1) show "s_reserved_region (statics_of L m1) = \<lparr> r_start = 0, r_end = 0 \<rparr>"
        by simp
    qed
    from Cons.IH [OF this r1 Cons.prems(3)] show ?thesis .
  next
    case Get_reserved_region
    with Cons show ?thesis by simp
  qed
qed

lemma loaded_load_image:
  assumes "wf_layout L"
  shows "loaded L (load_image L m)"
proof -
  note w = wf_layout_cells [OF assms]
  show ?thesis
    unfolding loaded_def load_image_def
    using w
    by (simp add: load32_store32_same load32_store32_other load32_store32_other'
        load32_store_bool_other
        load_bool_store32_other load_bool_store_bool_other load_bool_store_bool_same
        not_sym)
qed

lemma wf_layout_apart: "wf_layout layout_apart"
  by (simp add: wf_layout_def statics_bytes_def bytes4_def layout_apart_def)

lemma wf_layout_inside: "wf_layout layout_inside"
  by (simp add: wf_layout_def statics_bytes_def bytes4_def layout_inside_def)

lemma statics_of_boot_apart: "statics_of layout_apart boot_apart = initial_state boot_apart"
  unfolding boot_apart_def by (intro loaded_statics loaded_load_image wf_layout_apart)

lemma statics_of_boot_inside: "statics_of layout_inside boot_inside = initial_state boot_inside"
  unfolding boot_inside_def by (intro loaded_statics loaded_load_image wf_layout_inside)

section \<open>The claims that depend on where the static variables are\<close>

lemma statics_of_configured_apart:
  "statics_of layout_apart (set_ram_bounds_at layout_apart b sz boot_apart) =
     (set_ram_bounds b sz (initial_state boot_apart))
       \<lparr> ram := set_ram_bounds_at layout_apart b sz boot_apart \<rparr>"
  by (simp add: statics_of_set_ram_bounds_at [OF wf_layout_apart] statics_of_boot_apart)

lemma statics_of_configured_inside:
  "statics_of layout_inside (set_ram_bounds_at layout_inside b sz boot_inside) =
     (set_ram_bounds b sz (initial_state boot_inside))
       \<lparr> ram := set_ram_bounds_at layout_inside b sz boot_inside \<rparr>"
  by (simp add: statics_of_set_ram_bounds_at [OF wf_layout_inside] statics_of_boot_inside)

lemma reserve_at_inside_example:
  "reserve_at layout_inside None True
     (set_ram_bounds_at layout_inside 0x8049248 0x2014 boot_inside) =
   Some (True, committed_memory layout_inside 0x804B248 0x804B25C True
     (set_ram_bounds_at layout_inside 0x8049248 0x2014 boot_inside))"
  by (simp add: reserve_at_eq statics_of_configured_inside effective_ram_bounds_def
      set_ram_bounds_def initial_state_def usable_start_of_def usable_end_of_def ALIGN_def
      RESERVED_PREFIX_def Let_def)

lemma statics_of_clobbered:
  "statics_of layout_inside (committed_memory layout_inside 0x804B248 0x804B25C True m) =
     \<lparr> s_ram_base = 0, s_ram_size = 0, s_reserved_region = \<lparr> r_start = 0, r_end = 0 \<rparr>,
       s_reserved = True, s_explicit_bounds_set = False,
       ram = committed_memory layout_inside 0x804B248 0x804B25C True m \<rparr>"
  by (simp add: statics_of_def load32_def load_bool_def committed_memory_def store_bool_def
      zero_fill_def layout_inside_def)

text \<open>
  C10 (as amended). The call never writes the stored bounds, as long as its loop
  spares the static variables. For every layout that gives the static variables
  distinct storage and every call whose loop, if it runs, runs over no byte of a
  static variable (in particular every call with \<^verbatim>\<open>zero_memory = false\<close>): the call
  returns, and \<^verbatim>\<open>s_ram_base\<close>, \<^verbatim>\<open>s_ram_size\<close> and \<^verbatim>\<open>s_explicit_bounds_set\<close> read after
  it as before, so a later attempt derives the same effective bounds; a size taken
  from the marker is not stored.
\<close>

theorem reserve_at_preserves_stored_bounds:
  assumes "wf_layout L" and "zeroing_spares_statics L marker z m"
  shows "\<exists>r m'. reserve_at L marker z m = Some (r, m') \<and>
           s_ram_base (statics_of L m') = s_ram_base (statics_of L m) \<and>
           s_ram_size (statics_of L m') = s_ram_size (statics_of L m) \<and>
           s_explicit_bounds_set (statics_of L m') = s_explicit_bounds_set (statics_of L m) \<and>
           effective_ram_bounds marker (statics_of L m') =
             effective_ram_bounds marker (statics_of L m)"
proof -
  obtain r m' where r: "reserve_at L marker z m = Some (r, m')"
    using reserve_at_total by blast
  from reserve_at_simulated [OF assms r] obtain s' where
    s: "reserve_all_except_first_8kb marker z (statics_of L m) = Some (r, s')"
    "statics_of L m' = s'\<lparr> ram := m' \<rparr>"
    by blast
  note f = reserve_fields [OF s(1)]
  have g: "s_ram_base (statics_of L m') = s_ram_base (statics_of L m)"
    "s_ram_size (statics_of L m') = s_ram_size (statics_of L m)"
    "s_explicit_bounds_set (statics_of L m') = s_explicit_bounds_set (statics_of L m)"
    using f s(2) by simp_all
  from r g effective_cong [OF g] show ?thesis by blast
qed

lemma spares_apart_marker_example:
  "zeroing_spares_statics layout_apart (Some 0x3F900002) True boot_apart"
proof -
  have e: "effective_ram_bounds (Some 0x3F900002) (statics_of layout_apart boot_apart) =
      (0x3F800000, 0x100002)"
    by (simp add: statics_of_boot_apart effective_ram_bounds_def compute_ram_end_from_linker_def
        initial_state_def DEFAULT_RAM_BASE_def Let_def)
  have o: "statics_outside layout_apart (usable_start_of 0x3F800000)
      (usable_end_of 0x3F800000 0x100002)"
    by (simp add: usable_start_of_def usable_end_of_def ALIGN_def RESERVED_PREFIX_def Let_def
        statics_outside_def statics_bytes_def bytes4_def layout_apart_def)
  show ?thesis by (simp add: zeroing_spares_statics_def e o)
qed

theorem reserve_at_preserves_stored_bounds_witness:
  "wf_layout layout_apart \<and>
   zeroing_spares_statics layout_apart (Some 0x3F900002) True boot_apart \<and>
   (\<exists>r m'. reserve_at layout_apart (Some 0x3F900002) True boot_apart = Some (r, m') \<and>
      s_ram_base (statics_of layout_apart m') = DEFAULT_RAM_BASE \<and>
      s_ram_size (statics_of layout_apart m') = DEFAULT_RAM_SIZE \<and>
      \<not> s_explicit_bounds_set (statics_of layout_apart m'))"
  using reserve_at_preserves_stored_bounds [OF wf_layout_apart spares_apart_marker_example]
    wf_layout_apart spares_apart_marker_example
  by (auto simp add: statics_of_boot_apart initial_state_def)

text \<open>
  C10 as stated fails when the zeroed region holds the static variables: with them at
  \<open>0x804B248\<close>, \<^verbatim>\<open>set_ram_bounds(0x8049248, 0x2014)\<close> followed by a zeroing call returns true
  and leaves \<^verbatim>\<open>s_ram_base = 0\<close>, \<^verbatim>\<open>s_ram_size = 0\<close> and \<^verbatim>\<open>s_explicit_bounds_set = false\<close>.
\<close>

theorem reserve_at_preserves_stored_bounds_counterexample:
  "wf_layout layout_inside \<and>
   reserve_at layout_inside None True
     (set_ram_bounds_at layout_inside 0x8049248 0x2014 boot_inside) =
   Some (True, committed_memory layout_inside 0x804B248 0x804B25C True
     (set_ram_bounds_at layout_inside 0x8049248 0x2014 boot_inside)) \<and>
   s_ram_base (statics_of layout_inside
     (set_ram_bounds_at layout_inside 0x8049248 0x2014 boot_inside)) = 0x8049248 \<and>
   s_ram_size (statics_of layout_inside
     (set_ram_bounds_at layout_inside 0x8049248 0x2014 boot_inside)) = 0x2014 \<and>
   s_explicit_bounds_set (statics_of layout_inside
     (set_ram_bounds_at layout_inside 0x8049248 0x2014 boot_inside)) \<and>
   s_ram_base (statics_of layout_inside
     (committed_memory layout_inside 0x804B248 0x804B25C True
       (set_ram_bounds_at layout_inside 0x8049248 0x2014 boot_inside))) = 0 \<and>
   s_ram_size (statics_of layout_inside
     (committed_memory layout_inside 0x804B248 0x804B25C True
       (set_ram_bounds_at layout_inside 0x8049248 0x2014 boot_inside))) = 0 \<and>
   \<not> s_explicit_bounds_set (statics_of layout_inside
     (committed_memory layout_inside 0x804B248 0x804B25C True
       (set_ram_bounds_at layout_inside 0x8049248 0x2014 boot_inside)))"
  using wf_layout_inside reserve_at_inside_example
  by (simp add: statics_of_configured_inside statics_of_clobbered set_ram_bounds_def)

lemma reserve_at_commits:
  assumes "\<not> s_reserved (statics_of L m)" "reserve_at L marker z m = Some (True, m')"
  shows "m' = committed_memory L
           (usable_start_of (fst (effective_ram_bounds marker (statics_of L m))))
           (usable_end_of (fst (effective_ram_bounds marker (statics_of L m)))
              (snd (effective_ram_bounds marker (statics_of L m)))) z m"
    and "RESERVED_PREFIX < snd (effective_ram_bounds marker (statics_of L m))"
    and "usable_start_of (fst (effective_ram_bounds marker (statics_of L m))) <
         usable_end_of (fst (effective_ram_bounds marker (statics_of L m)))
           (snd (effective_ram_bounds marker (statics_of L m)))"
  using assms by (auto simp add: reserve_at_eq split: if_splits)

lemma spares_commit:
  assumes "zeroing_spares_statics L marker z m" "\<not> s_reserved (statics_of L m)"
    "RESERVED_PREFIX < snd (effective_ram_bounds marker (statics_of L m))"
  shows "z \<longrightarrow> statics_outside L
           (usable_start_of (fst (effective_ram_bounds marker (statics_of L m))))
           (usable_end_of (fst (effective_ram_bounds marker (statics_of L m)))
              (snd (effective_ram_bounds marker (statics_of L m))))"
proof -
  have "s_reserved (statics_of L m) = load_bool m (at_reserved L)"
    by (simp add: statics_of_def)
  thus ?thesis using assms by (auto simp add: zeroing_spares_statics_def split: prod.splits)
qed

text \<open>
  C8 (as amended). \<^verbatim>\<open>get_reserved_region\<close> loads the two words of
  \<^verbatim>\<open>s_reserved_region\<close> and writes nothing. For every layout that gives the static
  variables distinct storage and every memory reached from load time by a sequence of
  calls: while no reservation is committed it returns the zero interval;
  \<^verbatim>\<open>set_ram_bounds\<close> does not change what it returns; and when a call commits a region
  and its loop spares the static variables, it returns exactly that region (the
  aligned interval computed from the effective bounds), after the call and after any
  further sequence of calls, each of which returns.
\<close>

theorem get_reserved_region_at_committed:
  assumes "wf_layout L" and "loaded L m0" and "run_at L marker cs m0 = Some m"
  shows "(\<not> s_reserved (statics_of L m) \<longrightarrow>
            get_reserved_region_at L m = \<lparr> r_start = 0, r_end = 0 \<rparr>) \<and>
         get_reserved_region_at L (set_ram_bounds_at L b sz m) = get_reserved_region_at L m \<and>
         (\<not> s_reserved (statics_of L m) \<and> reserve_at L marker z m = Some (True, m') \<and>
          zeroing_spares_statics L marker z m \<longrightarrow>
            get_reserved_region_at L m' =
              \<lparr> r_start = usable_start_of (fst (effective_ram_bounds marker (statics_of L m))),
                r_end = usable_end_of (fst (effective_ram_bounds marker (statics_of L m)))
                  (snd (effective_ram_bounds marker (statics_of L m))) \<rparr> \<and>
            (\<exists>m''. run_at L other cs' m' = Some m'' \<and>
               get_reserved_region_at L m'' = get_reserved_region_at L m'))"
proof -
  have i: "\<not> s_reserved (statics_of L m0) \<longrightarrow>
           s_reserved_region (statics_of L m0) = \<lparr> r_start = 0, r_end = 0 \<rparr>"
    using assms(2) by (simp add: loaded_statics initial_state_def)
  have 1: "\<not> s_reserved (statics_of L m) \<longrightarrow>
            get_reserved_region_at L m = \<lparr> r_start = 0, r_end = 0 \<rparr>"
    using run_at_uncommitted [OF assms(1) i assms(3)]
    by (simp add: get_reserved_region_at_statics)
  have 2: "get_reserved_region_at L (set_ram_bounds_at L b sz m) = get_reserved_region_at L m"
    by (simp add: get_reserved_region_at_statics statics_of_set_ram_bounds_at [OF assms(1)]
        set_ram_bounds_def)
  have 3: "get_reserved_region_at L m' =
              \<lparr> r_start = usable_start_of (fst (effective_ram_bounds marker (statics_of L m))),
                r_end = usable_end_of (fst (effective_ram_bounds marker (statics_of L m)))
                  (snd (effective_ram_bounds marker (statics_of L m))) \<rparr> \<and>
            (\<exists>m''. run_at L other cs' m' = Some m'' \<and>
               get_reserved_region_at L m'' = get_reserved_region_at L m')"
    if n: "\<not> s_reserved (statics_of L m)" and r: "reserve_at L marker z m = Some (True, m')"
      and sp: "zeroing_spares_statics L marker z m"
  proof -
    note c = reserve_at_commits [OF n r]
    note o = spares_commit [OF sp n c(2)]
    have s: "statics_of L m' =
        (statics_of L m)\<lparr> s_reserved_region :=
            \<lparr> r_start = usable_start_of (fst (effective_ram_bounds marker (statics_of L m))),
              r_end = usable_end_of (fst (effective_ram_bounds marker (statics_of L m)))
                (snd (effective_ram_bounds marker (statics_of L m))) \<rparr>,
          s_reserved := True, ram := m' \<rparr>"
      unfolding c(1) by (rule statics_of_committed_memory [OF assms(1) o])
    hence "s_reserved (statics_of L m')" by simp
    from run_at_committed [OF assms(1) this, of other cs'] s show ?thesis
      by (auto simp add: get_reserved_region_at_statics)
  qed
  from 1 2 3 show ?thesis by blast
qed

lemma run_at_configure_apart:
  "run_at layout_apart marker [Set_ram_bounds b sz] boot_apart =
     Some (set_ram_bounds_at layout_apart b sz boot_apart)"
  by simp

lemma loaded_boot_apart: "loaded layout_apart boot_apart"
  unfolding boot_apart_def by (rule loaded_load_image [OF wf_layout_apart])

lemma effective_configured_apart:
  "effective_ram_bounds marker
     (statics_of layout_apart (set_ram_bounds_at layout_apart b sz boot_apart)) = (b, sz)"
  by (simp add: statics_of_configured_apart effective_explicit set_ram_bounds_def)

lemma uncommitted_configured_apart:
  "\<not> s_reserved (statics_of layout_apart (set_ram_bounds_at layout_apart b sz boot_apart))"
  by (simp add: statics_of_configured_apart set_ram_bounds_def initial_state_def)

lemma statics_outside_apart:
  "lo \<le> hi \<Longrightarrow> hi \<le> 0x10000 \<Longrightarrow> statics_outside layout_apart lo hi"
  by (simp add: statics_outside_def statics_bytes_def bytes4_def layout_apart_def)
    (simp add: word_le_nat_alt word_less_nat_alt)

lemma reserve_at_apart_example:
  "reserve_at layout_apart marker z (set_ram_bounds_at layout_apart 0x1000 0x2010 boot_apart) =
   Some (True, committed_memory layout_apart 0x3000 0x3010 z
     (set_ram_bounds_at layout_apart 0x1000 0x2010 boot_apart))"
  using uncommitted_configured_apart [of "0x1000" "0x2010"]
  by (simp add: reserve_at_eq effective_configured_apart usable_start_of_def usable_end_of_def
      ALIGN_def RESERVED_PREFIX_def Let_def)

lemma spares_apart_example:
  "zeroing_spares_statics layout_apart marker z
     (set_ram_bounds_at layout_apart 0x1000 0x2010 boot_apart)"
proof -
  have "statics_outside layout_apart (usable_start_of 0x1000) (usable_end_of 0x1000 0x2010)"
    by (rule statics_outside_apart)
      (simp_all add: usable_start_of_def usable_end_of_def ALIGN_def RESERVED_PREFIX_def Let_def)
  thus ?thesis by (simp add: zeroing_spares_statics_def effective_configured_apart)
qed

theorem get_reserved_region_at_committed_witness:
  "wf_layout layout_apart \<and> loaded layout_apart boot_apart \<and>
   run_at layout_apart None [Set_ram_bounds 0x1000 0x2010] boot_apart =
     Some (set_ram_bounds_at layout_apart 0x1000 0x2010 boot_apart) \<and>
   \<not> s_reserved (statics_of layout_apart (set_ram_bounds_at layout_apart 0x1000 0x2010 boot_apart)) \<and>
   get_reserved_region_at layout_apart (set_ram_bounds_at layout_apart 0x1000 0x2010 boot_apart) =
     \<lparr> r_start = 0, r_end = 0 \<rparr> \<and>
   reserve_at layout_apart None True (set_ram_bounds_at layout_apart 0x1000 0x2010 boot_apart) =
     Some (True, committed_memory layout_apart 0x3000 0x3010 True
       (set_ram_bounds_at layout_apart 0x1000 0x2010 boot_apart)) \<and>
   zeroing_spares_statics layout_apart None True
     (set_ram_bounds_at layout_apart 0x1000 0x2010 boot_apart) \<and>
   get_reserved_region_at layout_apart (committed_memory layout_apart 0x3000 0x3010 True
       (set_ram_bounds_at layout_apart 0x1000 0x2010 boot_apart)) =
     \<lparr> r_start = 0x3000, r_end = 0x3010 \<rparr> \<and>
   (\<exists>m''. run_at layout_apart None [Set_ram_bounds 0x5000 0x4000, Reserve True, Get_reserved_region]
        (committed_memory layout_apart 0x3000 0x3010 True
          (set_ram_bounds_at layout_apart 0x1000 0x2010 boot_apart)) = Some m'' \<and>
      get_reserved_region_at layout_apart m'' = \<lparr> r_start = 0x3000, r_end = 0x3010 \<rparr>)"
proof -
  note t = get_reserved_region_at_committed [OF wf_layout_apart loaded_boot_apart
      run_at_configure_apart [of None "0x1000" "0x2010"], where z = True
      and m' = "committed_memory layout_apart 0x3000 0x3010 True
        (set_ram_bounds_at layout_apart 0x1000 0x2010 boot_apart)"
      and other = None
      and cs' = "[Set_ram_bounds 0x5000 0x4000, Reserve True, Get_reserved_region]"]
  note n = uncommitted_configured_apart [of "0x1000" "0x2010"]
  note r = reserve_at_apart_example [of None True]
  note sp = spares_apart_example [of None True]
  have a: "get_reserved_region_at layout_apart
      (set_ram_bounds_at layout_apart 0x1000 0x2010 boot_apart) = \<lparr> r_start = 0, r_end = 0 \<rparr>"
    using t [THEN conjunct1] n by simp
  have v: "usable_start_of 0x1000 = 0x3000" "usable_end_of 0x1000 0x2010 = 0x3010"
    by (simp_all add: usable_start_of_def usable_end_of_def ALIGN_def RESERVED_PREFIX_def Let_def)
  note u = t [THEN conjunct2, THEN conjunct2, THEN mp, OF conjI [OF n conjI [OF r sp]],
      unfolded effective_configured_apart fst_conv snd_conv v]
  from u obtain m'' where
    g: "get_reserved_region_at layout_apart (committed_memory layout_apart 0x3000 0x3010 True
       (set_ram_bounds_at layout_apart 0x1000 0x2010 boot_apart)) =
     \<lparr> r_start = 0x3000, r_end = 0x3010 \<rparr>"
    and "run_at layout_apart None [Set_ram_bounds 0x5000 0x4000, Reserve True, Get_reserved_region]
        (committed_memory layout_apart 0x3000 0x3010 True
          (set_ram_bounds_at layout_apart 0x1000 0x2010 boot_apart)) = Some m''"
    and "get_reserved_region_at layout_apart m'' =
        get_reserved_region_at layout_apart (committed_memory layout_apart 0x3000 0x3010 True
          (set_ram_bounds_at layout_apart 0x1000 0x2010 boot_apart))"
    by blast
  hence b: "get_reserved_region_at layout_apart (committed_memory layout_apart 0x3000 0x3010 True
       (set_ram_bounds_at layout_apart 0x1000 0x2010 boot_apart)) =
     \<lparr> r_start = 0x3000, r_end = 0x3010 \<rparr> \<and>
   (\<exists>m''. run_at layout_apart None [Set_ram_bounds 0x5000 0x4000, Reserve True, Get_reserved_region]
        (committed_memory layout_apart 0x3000 0x3010 True
          (set_ram_bounds_at layout_apart 0x1000 0x2010 boot_apart)) = Some m'' \<and>
      get_reserved_region_at layout_apart m'' = \<lparr> r_start = 0x3000, r_end = 0x3010 \<rparr>)"
    by metis
  from wf_layout_apart loaded_boot_apart run_at_configure_apart [of None "0x1000" "0x2010"]
    n a r sp b
  show ?thesis by blast
qed

text \<open>
  C8 as stated fails when the zeroed region holds \<^verbatim>\<open>s_reserved_region\<close>: with the
  static variables at \<open>0x804B248\<close>, the zeroing call on \<open>[0x804B248, 0x804B25C)\<close> returns
  true and \<^verbatim>\<open>get_reserved_region\<close> then returns \<open>{0, 0}\<close>, not the committed interval.
\<close>

theorem get_reserved_region_at_committed_counterexample:
  "wf_layout layout_inside \<and>
   reserve_at layout_inside None True
     (set_ram_bounds_at layout_inside 0x8049248 0x2014 boot_inside) =
   Some (True, committed_memory layout_inside 0x804B248 0x804B25C True
     (set_ram_bounds_at layout_inside 0x8049248 0x2014 boot_inside)) \<and>
   get_reserved_region_at layout_inside
     (committed_memory layout_inside 0x804B248 0x804B25C True
       (set_ram_bounds_at layout_inside 0x8049248 0x2014 boot_inside)) =
     \<lparr> r_start = 0, r_end = 0 \<rparr>"
  using wf_layout_inside reserve_at_inside_example
  by (simp add: get_reserved_region_at_statics statics_of_clobbered)

lemma loaded_state_inv: "loaded L m \<Longrightarrow> state_inv (statics_of L m)"
  by (simp add: loaded_statics state_inv_initial)

lemma round_up_exact:
  assumes "(x::nat) + 3 < 2 ^ 32"
  shows "((x + 3) div 4 * 4) mod 2 ^ 32 = (x + 3) div 4 * 4"
proof -
  have "(x + 3) div 4 * 4 \<le> x + 3" by simp
  with assms have "(x + 3) div 4 * 4 < 2 ^ 32" by linarith
  thus ?thesis by simp
qed

text \<open>
  C4 (as amended). Alignment. For every layout that gives the static variables
  distinct storage, and every memory reached from load time by calls whose loops
  spared the static variables: when a call whose loop spares them returns true,
  \<^verbatim>\<open>get_reserved_region\<close> has both ends at multiples of 4 and \<open>start < end\<close>. When that
  call committed the region, \<open>end\<close> is the 32-bit sum \<open>base + size\<close> rounded down to a
  multiple of 4 and, provided the 32-bit sum \<open>base + RESERVED_PREFIX\<close> plus 3 stays
  below \<open>2 ^ 32\<close>, \<open>start\<close> is that sum rounded up to the next multiple of 4 (base and
  size the effective ones).
\<close>

theorem alignment_postcondition_at:
  assumes "wf_layout L" and "loaded L m0" and "run_at L marker cs m0 = Some m"
    and "run_spares_statics L marker cs m0" and "zeroing_spares_statics L marker z m"
    and "reserve_at L marker z m = Some (True, m')"
  shows "unat (r_start (get_reserved_region_at L m')) mod 4 = 0 \<and>
         unat (r_end (get_reserved_region_at L m')) mod 4 = 0 \<and>
         r_start (get_reserved_region_at L m') < r_end (get_reserved_region_at L m') \<and>
         (\<not> s_reserved (statics_of L m) \<longrightarrow>
            unat (r_end (get_reserved_region_at L m')) =
              unat (fst (effective_ram_bounds marker (statics_of L m)) +
                    snd (effective_ram_bounds marker (statics_of L m))) div 4 * 4 \<and>
            (unat (fst (effective_ram_bounds marker (statics_of L m)) + RESERVED_PREFIX) + 3 < 2 ^ 32 \<longrightarrow>
               unat (r_start (get_reserved_region_at L m')) =
                 (unat (fst (effective_ram_bounds marker (statics_of L m)) + RESERVED_PREFIX) + 3)
                   div 4 * 4))"
proof -
  have "state_inv (statics_of L m)"
    using run_at_state_inv [OF assms(1) loaded_state_inv [OF assms(2)] assms(4,3)] .
  hence i: "state_inv (statics_of L m')"
    by (rule reserve_at_state_inv [OF assms(1,5,6)])
  from reserve_at_simulated [OF assms(1,5,6)] obtain s' where
    s: "reserve_all_except_first_8kb marker z (statics_of L m) = Some (True, s')"
    "statics_of L m' = s'\<lparr> ram := m' \<rparr>"
    by blast
  have "s_reserved (statics_of L m')" using reserve_True [OF s(1)] s(2) by simp
  with i have 1: "unat (r_start (get_reserved_region_at L m')) mod 4 = 0"
    "unat (r_end (get_reserved_region_at L m')) mod 4 = 0"
    "r_start (get_reserved_region_at L m') < r_end (get_reserved_region_at L m')"
    by (simp_all add: state_inv_def get_reserved_region_at_statics)
  have 2: "unat (r_end (get_reserved_region_at L m')) =
              unat (fst (effective_ram_bounds marker (statics_of L m)) +
                    snd (effective_ram_bounds marker (statics_of L m))) div 4 * 4"
    "unat (fst (effective_ram_bounds marker (statics_of L m)) + RESERVED_PREFIX) + 3 < 2 ^ 32 \<longrightarrow>
               unat (r_start (get_reserved_region_at L m')) =
                 (unat (fst (effective_ram_bounds marker (statics_of L m)) + RESERVED_PREFIX) + 3)
                   div 4 * 4"
    if n: "\<not> s_reserved (statics_of L m)"
  proof -
    note c = reserve_commit(1) [OF n s(1), of "fst (effective_ram_bounds marker (statics_of L m))"
        "snd (effective_ram_bounds marker (statics_of L m))"]
    have g: "get_reserved_region_at L m' =
        \<lparr> r_start = usable_start_of (fst (effective_ram_bounds marker (statics_of L m))),
          r_end = usable_end_of (fst (effective_ram_bounds marker (statics_of L m)))
            (snd (effective_ram_bounds marker (statics_of L m))) \<rparr>"
      using c s(2) by (simp add: get_reserved_region_at_statics)
    show "unat (r_end (get_reserved_region_at L m')) =
              unat (fst (effective_ram_bounds marker (statics_of L m)) +
                    snd (effective_ram_bounds marker (statics_of L m))) div 4 * 4"
      by (simp add: g unat_usable_end_of)
    show "unat (fst (effective_ram_bounds marker (statics_of L m)) + RESERVED_PREFIX) + 3 < 2 ^ 32 \<longrightarrow>
               unat (r_start (get_reserved_region_at L m')) =
                 (unat (fst (effective_ram_bounds marker (statics_of L m)) + RESERVED_PREFIX) + 3)
                   div 4 * 4"
      using round_up_exact
      by (simp add: g unat_usable_start_of del: One_nat_def)
  qed
  from 1 2 show ?thesis by blast
qed

lemma reserve_at_unaligned_example:
  "reserve_at layout_apart marker z (set_ram_bounds_at layout_apart 0x1001 0x2012 boot_apart) =
   Some (True, committed_memory layout_apart 0x3004 0x3010 z
     (set_ram_bounds_at layout_apart 0x1001 0x2012 boot_apart))"
  using uncommitted_configured_apart [of "0x1001" "0x2012"]
  by (simp add: reserve_at_eq effective_configured_apart usable_start_of_def usable_end_of_def
      ALIGN_def RESERVED_PREFIX_def Let_def)

lemma spares_unaligned_example:
  "zeroing_spares_statics layout_apart marker z
     (set_ram_bounds_at layout_apart 0x1001 0x2012 boot_apart)"
proof -
  have "statics_outside layout_apart (usable_start_of 0x1001) (usable_end_of 0x1001 0x2012)"
    by (rule statics_outside_apart)
      (simp_all add: usable_start_of_def usable_end_of_def ALIGN_def RESERVED_PREFIX_def Let_def)
  thus ?thesis by (simp add: zeroing_spares_statics_def effective_configured_apart)
qed

theorem alignment_postcondition_at_witness:
  "wf_layout layout_apart \<and> loaded layout_apart boot_apart \<and>
   run_at layout_apart None [Set_ram_bounds 0x1001 0x2012] boot_apart =
     Some (set_ram_bounds_at layout_apart 0x1001 0x2012 boot_apart) \<and>
   run_spares_statics layout_apart None [Set_ram_bounds 0x1001 0x2012] boot_apart \<and>
   zeroing_spares_statics layout_apart None True
     (set_ram_bounds_at layout_apart 0x1001 0x2012 boot_apart) \<and>
   reserve_at layout_apart None True (set_ram_bounds_at layout_apart 0x1001 0x2012 boot_apart) =
     Some (True, committed_memory layout_apart 0x3004 0x3010 True
       (set_ram_bounds_at layout_apart 0x1001 0x2012 boot_apart)) \<and>
   unat (r_start (get_reserved_region_at layout_apart
     (committed_memory layout_apart 0x3004 0x3010 True
       (set_ram_bounds_at layout_apart 0x1001 0x2012 boot_apart)))) = 0x3004 \<and>
   unat (r_end (get_reserved_region_at layout_apart
     (committed_memory layout_apart 0x3004 0x3010 True
       (set_ram_bounds_at layout_apart 0x1001 0x2012 boot_apart)))) = 0x3010 \<and>
   r_start (get_reserved_region_at layout_apart
     (committed_memory layout_apart 0x3004 0x3010 True
       (set_ram_bounds_at layout_apart 0x1001 0x2012 boot_apart))) <
   r_end (get_reserved_region_at layout_apart
     (committed_memory layout_apart 0x3004 0x3010 True
       (set_ram_bounds_at layout_apart 0x1001 0x2012 boot_apart)))"
proof -
  note r = run_at_configure_apart [of None "0x1001" "0x2012"]
  have sp0: "run_spares_statics layout_apart None [Set_ram_bounds 0x1001 0x2012] boot_apart"
    by simp
  note sp = spares_unaligned_example [of None True]
  note c = reserve_at_unaligned_example [of None True]
  note n = uncommitted_configured_apart [of "0x1001" "0x2012"]
  note t = alignment_postcondition_at [OF wf_layout_apart loaded_boot_apart r sp0 sp c,
      unfolded effective_configured_apart fst_conv snd_conv]
  have "unat (r_start (get_reserved_region_at layout_apart
     (committed_memory layout_apart 0x3004 0x3010 True
       (set_ram_bounds_at layout_apart 0x1001 0x2012 boot_apart)))) = 0x3004 \<and>
   unat (r_end (get_reserved_region_at layout_apart
     (committed_memory layout_apart 0x3004 0x3010 True
       (set_ram_bounds_at layout_apart 0x1001 0x2012 boot_apart)))) = 0x3010"
    using t n by (simp add: RESERVED_PREFIX_def)
  with wf_layout_apart loaded_boot_apart r sp0 sp c t show ?thesis by blast
qed

lemma reserve_at_round_up_example:
  "reserve_at layout_apart None False
     (set_ram_bounds_at layout_apart 0xFFFFDFFD 0x2002 boot_apart) =
   Some (True, committed_memory layout_apart 0 0xFFFFFFFC False
     (set_ram_bounds_at layout_apart 0xFFFFDFFD 0x2002 boot_apart))"
proof -
  have u: "usable_start_of 0xFFFFDFFD = 0" "usable_end_of 0xFFFFDFFD 0x2002 = 0xFFFFFFFC"
    by (simp_all add: usable_start_of_def usable_end_of_def ALIGN_def RESERVED_PREFIX_def Let_def)
  show ?thesis
    using uncommitted_configured_apart [of "0xFFFFDFFD" "0x2002"]
    by (simp add: reserve_at_eq effective_configured_apart u RESERVED_PREFIX_def)
qed

lemma region_round_up_example:
  "get_reserved_region_at layout_apart
     (committed_memory layout_apart 0 0xFFFFFFFC False m) =
   \<lparr> r_start = 0, r_end = 0xFFFFFFFC \<rparr>"
  by (simp add: get_reserved_region_at_def region_of_committed_memory [OF wf_layout_apart])

text \<open>
  C4 as stated fails twice. With the static variables inside the zeroed region the
  call returns true and \<^verbatim>\<open>get_reserved_region\<close> returns \<open>{0, 0}\<close>, so \<open>start < end\<close> is
  false. With base \<open>0xFFFFDFFD\<close> and size \<open>0x2002\<close>, \<open>base + RESERVED_PREFIX\<close> is
  \<open>0xFFFFFFFD\<close>, whose rounding up is \<open>2 ^ 32\<close>; the committed start is 0.
\<close>

theorem alignment_postcondition_at_counterexample:
  "reserve_at layout_inside None True
     (set_ram_bounds_at layout_inside 0x8049248 0x2014 boot_inside) =
   Some (True, committed_memory layout_inside 0x804B248 0x804B25C True
     (set_ram_bounds_at layout_inside 0x8049248 0x2014 boot_inside)) \<and>
   \<not> r_start (get_reserved_region_at layout_inside
       (committed_memory layout_inside 0x804B248 0x804B25C True
         (set_ram_bounds_at layout_inside 0x8049248 0x2014 boot_inside))) <
     r_end (get_reserved_region_at layout_inside
       (committed_memory layout_inside 0x804B248 0x804B25C True
         (set_ram_bounds_at layout_inside 0x8049248 0x2014 boot_inside))) \<and>
   reserve_at layout_apart None False
     (set_ram_bounds_at layout_apart 0xFFFFDFFD 0x2002 boot_apart) =
   Some (True, committed_memory layout_apart 0 0xFFFFFFFC False
     (set_ram_bounds_at layout_apart 0xFFFFDFFD 0x2002 boot_apart)) \<and>
   unat (r_start (get_reserved_region_at layout_apart
     (committed_memory layout_apart 0 0xFFFFFFFC False
       (set_ram_bounds_at layout_apart 0xFFFFDFFD 0x2002 boot_apart)))) \<noteq>
     (unat ((0xFFFFDFFD :: uintptr_t) + RESERVED_PREFIX) + 3) div 4 * 4"
proof -
  have "get_reserved_region_at layout_inside
       (committed_memory layout_inside 0x804B248 0x804B25C True
         (set_ram_bounds_at layout_inside 0x8049248 0x2014 boot_inside)) =
     \<lparr> r_start = 0, r_end = 0 \<rparr>"
    by (simp add: get_reserved_region_at_statics statics_of_clobbered)
  thus ?thesis
    using reserve_at_inside_example reserve_at_round_up_example
    by (simp add: region_round_up_example RESERVED_PREFIX_def)
qed

text \<open>
  C6. Containment fails on the code. With base \<open>0xFFFFDFFD\<close> and size \<open>0x2002\<close> the
  interval \<open>[base, base + size)\<close> ends at \<open>0xFFFFFFFF\<close>, inside the address space. The
  rounding up of \<open>base + RESERVED_PREFIX = 0xFFFFFFFD\<close> overflows to 0, the collapse
  check of line 107 compares 0 with \<open>0xFFFFFFFC\<close> and passes, and the call commits
  \<open>[0, 0xFFFFFFFC)\<close>, which is not contained in \<open>[base + RESERVED_PREFIX, base + size)\<close>.
\<close>

theorem containment_fails_on_round_up_overflow:
  "unat (0xFFFFDFFD :: uintptr_t) + unat (0x2002 :: size_t) \<le> 2 ^ 32 \<and>
   reserve_at layout_apart None False
     (set_ram_bounds_at layout_apart 0xFFFFDFFD 0x2002 boot_apart) =
   Some (True, committed_memory layout_apart 0 0xFFFFFFFC False
     (set_ram_bounds_at layout_apart 0xFFFFDFFD 0x2002 boot_apart)) \<and>
   get_reserved_region_at layout_apart
     (committed_memory layout_apart 0 0xFFFFFFFC False
       (set_ram_bounds_at layout_apart 0xFFFFDFFD 0x2002 boot_apart)) =
     \<lparr> r_start = 0, r_end = 0xFFFFFFFC \<rparr> \<and>
   \<not> contained_exact 0xFFFFDFFD 0x2002 \<lparr> r_start = 0, r_end = 0xFFFFFFFC \<rparr>"
  using reserve_at_round_up_example
  by (simp add: region_round_up_example contained_exact_def RESERVED_PREFIX_def)

lemma committed_memory_zero:
  assumes "lo \<le> a" "a < hi" "a \<noteq> at_reserved L"
  shows "committed_memory L lo hi True m a = 0"
  using assms by (simp add: committed_memory_def store_bool_other zero_fill_def)

lemma committed_memory_zero_word:
  assumes "lo \<le> a" "a < hi" "a mod 4 = 0" "unat hi mod 4 = 0"
    "at_reserved L \<notin> set (bytes4 a)"
  shows "load32 (committed_memory L lo hi True m) a = 0"
proof -
  let ?m1 = "store32 (store32 m (at_reserved_region L) lo) (at_reserved_region L + 4) hi"
  have "unat a mod 4 = 0" using assms(3) by (simp add: word_mod_4_iff)
  moreover have "unat a < unat hi" using assms(2) by (simp add: word_less_nat_alt)
  ultimately have "unat a + 4 \<le> unat hi" using assms(4) by presburger
  moreover have "unat lo \<le> unat a" using assms(1) by (simp add: word_le_nat_alt)
  ultimately have z: "load32 (zero_fill lo hi ?m1) a = 0" by (rule load32_zero_fill [rotated])
  have "committed_memory L lo hi True m x = zero_fill lo hi ?m1 x" if "x \<in> set (bytes4 a)" for x
  proof -
    from that assms(5) have "x \<noteq> at_reserved L" by blast
    thus ?thesis by (simp add: committed_memory_def store_bool_other)
  qed
  hence "load32 (committed_memory L lo hi True m) a = load32 (zero_fill lo hi ?m1) a"
    by (rule load32_cong)
  with z show ?thesis by simp
qed

text \<open>
  C7 (as amended). Zeroing and its frame. A call with \<^verbatim>\<open>zero_memory = true\<close> in a
  memory with no committed reservation returns (the loop ends). When it returns true,
  with \<open>[start, end)\<close> the aligned interval it stored into \<^verbatim>\<open>s_reserved_region\<close>: every
  byte of the interval other than the byte of \<^verbatim>\<open>s_reserved\<close> is zero after the call, so
  every 4-byte word at a multiple of 4 in the interval that does not hold
  \<^verbatim>\<open>s_reserved\<close> reads as zero; every byte outside the interval is unchanged, except
  the bytes of \<^verbatim>\<open>s_reserved_region\<close> and \<^verbatim>\<open>s_reserved\<close>, which the call writes; and when
  the static variables have distinct storage outside the interval,
  \<^verbatim>\<open>get_reserved_region\<close> returns \<open>[start, end)\<close>.
\<close>

theorem zeroing_postcondition_at:
  assumes "\<not> s_reserved (statics_of L m)"
  shows "(\<exists>r m'. reserve_at L marker True m = Some (r, m')) \<and>
         (reserve_at L marker True m = Some (True, m') \<longrightarrow>
            (usable_start_of (fst (effective_ram_bounds marker (statics_of L m))) \<le> a \<and>
             a < usable_end_of (fst (effective_ram_bounds marker (statics_of L m)))
                   (snd (effective_ram_bounds marker (statics_of L m))) \<and>
             a mod 4 = 0 \<and> at_reserved L \<notin> set (bytes4 a) \<longrightarrow> load32 m' a = 0) \<and>
            (usable_start_of (fst (effective_ram_bounds marker (statics_of L m))) \<le> a \<and>
             a < usable_end_of (fst (effective_ram_bounds marker (statics_of L m)))
                   (snd (effective_ram_bounds marker (statics_of L m))) \<and>
             a \<noteq> at_reserved L \<longrightarrow> m' a = 0) \<and>
            (\<not> (usable_start_of (fst (effective_ram_bounds marker (statics_of L m))) \<le> a \<and>
                a < usable_end_of (fst (effective_ram_bounds marker (statics_of L m)))
                      (snd (effective_ram_bounds marker (statics_of L m)))) \<and>
             a \<notin> set (bytes4 (at_reserved_region L)) \<and>
             a \<notin> set (bytes4 (at_reserved_region L + 4)) \<and> a \<noteq> at_reserved L \<longrightarrow>
               m' a = m a) \<and>
            (wf_layout L \<and>
             statics_outside L (usable_start_of (fst (effective_ram_bounds marker (statics_of L m))))
               (usable_end_of (fst (effective_ram_bounds marker (statics_of L m)))
                  (snd (effective_ram_bounds marker (statics_of L m)))) \<longrightarrow>
               get_reserved_region_at L m' =
                 \<lparr> r_start = usable_start_of (fst (effective_ram_bounds marker (statics_of L m))),
                   r_end = usable_end_of (fst (effective_ram_bounds marker (statics_of L m)))
                     (snd (effective_ram_bounds marker (statics_of L m))) \<rparr>))"
  (is "?total \<and> (?ret \<longrightarrow> ?words \<and> ?bytes \<and> ?frame \<and> ?region)")
proof -
  have 1: ?total by (rule reserve_at_total)
  have 2: "?words \<and> ?bytes \<and> ?frame \<and> ?region" if r: ?ret
  proof -
    note c = reserve_at_commits [OF assms r]
    have w: ?words
      unfolding c(1)
      by (intro impI, elim conjE,
          rule committed_memory_zero_word [OF _ _ _ usable_end_of_aligned], assumption+)
    have b: ?bytes
      unfolding c(1) by (auto intro: committed_memory_zero)
    have f: ?frame
      unfolding c(1) by (auto intro!: committed_memory_other)
    have g: ?region
      unfolding c(1)
      by (auto simp add: get_reserved_region_at_statics statics_of_committed_memory)
    from w b f g show ?thesis by blast
  qed
  from 1 2 show ?thesis by blast
qed

lemma usable_apart_example:
  "usable_start_of 0x1000 = 0x3000" "usable_end_of 0x1000 0x2010 = 0x3010"
  by (simp_all add: usable_start_of_def usable_end_of_def ALIGN_def RESERVED_PREFIX_def Let_def)

theorem zeroing_postcondition_at_witness:
  "\<not> s_reserved (statics_of layout_apart (set_ram_bounds_at layout_apart 0x1000 0x2010 boot_apart)) \<and>
   reserve_at layout_apart None True (set_ram_bounds_at layout_apart 0x1000 0x2010 boot_apart) =
     Some (True, committed_memory layout_apart 0x3000 0x3010 True
       (set_ram_bounds_at layout_apart 0x1000 0x2010 boot_apart)) \<and>
   load32 (committed_memory layout_apart 0x3000 0x3010 True
       (set_ram_bounds_at layout_apart 0x1000 0x2010 boot_apart)) 0x300C = 0 \<and>
   committed_memory layout_apart 0x3000 0x3010 True
       (set_ram_bounds_at layout_apart 0x1000 0x2010 boot_apart) 0x3010 =
     set_ram_bounds_at layout_apart 0x1000 0x2010 boot_apart 0x3010 \<and>
   get_reserved_region_at layout_apart (committed_memory layout_apart 0x3000 0x3010 True
       (set_ram_bounds_at layout_apart 0x1000 0x2010 boot_apart)) =
     \<lparr> r_start = 0x3000, r_end = 0x3010 \<rparr>"
proof -
  note n = uncommitted_configured_apart [of "0x1000" "0x2010"]
  note r = reserve_at_apart_example [of None True]
  have o: "statics_outside layout_apart 0x3000 0x3010"
    by (rule statics_outside_apart) simp_all
  have c: "at_reserved layout_apart \<notin> set (bytes4 0x300C)"
    "0x3010 \<notin> set (bytes4 (at_reserved_region layout_apart))"
    "0x3010 \<notin> set (bytes4 (at_reserved_region layout_apart + 4))"
    "0x3010 \<noteq> at_reserved layout_apart"
    by (simp_all add: bytes4_def layout_apart_def)
  have a: "load32 (committed_memory layout_apart 0x3000 0x3010 True
       (set_ram_bounds_at layout_apart 0x1000 0x2010 boot_apart)) 0x300C = 0"
    using zeroing_postcondition_at [OF n, where marker = None and a = "0x300C",
        THEN conjunct2, THEN mp, OF r, THEN conjunct1] c(1)
    by (simp add: effective_configured_apart usable_apart_example)
  have b: "committed_memory layout_apart 0x3000 0x3010 True
       (set_ram_bounds_at layout_apart 0x1000 0x2010 boot_apart) 0x3010 =
     set_ram_bounds_at layout_apart 0x1000 0x2010 boot_apart 0x3010"
    using zeroing_postcondition_at [OF n, where marker = None and a = "0x3010",
        THEN conjunct2, THEN mp, OF r, THEN conjunct2, THEN conjunct2, THEN conjunct1] c(2,3,4)
    by (simp add: effective_configured_apart usable_apart_example)
  have g: "get_reserved_region_at layout_apart (committed_memory layout_apart 0x3000 0x3010 True
       (set_ram_bounds_at layout_apart 0x1000 0x2010 boot_apart)) =
     \<lparr> r_start = 0x3000, r_end = 0x3010 \<rparr>"
    using zeroing_postcondition_at [OF n, where marker = None and a = 0,
        THEN conjunct2, THEN mp, OF r, THEN conjunct2, THEN conjunct2, THEN conjunct2]
      wf_layout_apart o
    by (simp add: effective_configured_apart usable_apart_example)
  from n r a b g show ?thesis by blast
qed

text \<open>
  C7 as stated fails in both parts. With the static variables at \<open>0x10000\<close>, outside
  the region \<open>[0x3000, 0x3010)\<close>, the byte of \<^verbatim>\<open>s_reserved\<close> at \<open>0x10010\<close> is 0 before the
  call and 1 after it: memory outside the region changed. With the static variables
  inside the region \<open>[0x804B248, 0x804B25C)\<close>, the word at \<open>0x804B258\<close> holds \<^verbatim>\<open>s_reserved\<close>,
  stored after the loop, and reads as 1.
\<close>

theorem zeroing_postcondition_at_counterexample:
  "reserve_at layout_apart None True (set_ram_bounds_at layout_apart 0x1000 0x2010 boot_apart) =
     Some (True, committed_memory layout_apart 0x3000 0x3010 True
       (set_ram_bounds_at layout_apart 0x1000 0x2010 boot_apart)) \<and>
   \<not> ((0x3000 :: uintptr_t) \<le> 0x10010 \<and> (0x10010 :: uintptr_t) < 0x3010) \<and>
   set_ram_bounds_at layout_apart 0x1000 0x2010 boot_apart 0x10010 = 0 \<and>
   committed_memory layout_apart 0x3000 0x3010 True
       (set_ram_bounds_at layout_apart 0x1000 0x2010 boot_apart) 0x10010 = 1 \<and>
   reserve_at layout_inside None True
     (set_ram_bounds_at layout_inside 0x8049248 0x2014 boot_inside) =
   Some (True, committed_memory layout_inside 0x804B248 0x804B25C True
     (set_ram_bounds_at layout_inside 0x8049248 0x2014 boot_inside)) \<and>
   (0x804B248 :: uintptr_t) \<le> 0x804B258 \<and> (0x804B258 :: uintptr_t) < 0x804B25C \<and>
   (0x804B258 :: uintptr_t) mod 4 = 0 \<and>
   load32 (committed_memory layout_inside 0x804B248 0x804B25C True
     (set_ram_bounds_at layout_inside 0x8049248 0x2014 boot_inside)) 0x804B258 = 1"
proof -
  have "\<not> load_bool (set_ram_bounds_at layout_apart 0x1000 0x2010 boot_apart)
      (at_reserved layout_apart)"
    using uncommitted_configured_apart [of "0x1000" "0x2010"] by (simp add: statics_of_def)
  hence 1: "set_ram_bounds_at layout_apart 0x1000 0x2010 boot_apart 0x10010 = 0"
    by (simp add: load_bool_def layout_apart_def)
  have 2: "committed_memory layout_apart 0x3000 0x3010 True
       (set_ram_bounds_at layout_apart 0x1000 0x2010 boot_apart) 0x10010 = 1"
    by (simp add: committed_memory_def store_bool_def layout_apart_def)
  have 3: "load32 (committed_memory layout_inside 0x804B248 0x804B25C True
     (set_ram_bounds_at layout_inside 0x8049248 0x2014 boot_inside)) 0x804B258 = 1"
    by (simp add: load32_def committed_memory_def store_bool_def zero_fill_def layout_inside_def)
  from 1 2 3 reserve_at_apart_example [of None True] reserve_at_inside_example
  show ?thesis by simp
qed

text \<open>
  C9 (as amended). Insufficient-memory boundary. For every layout that gives the
  static variables distinct storage, with no reservation committed and a word-aligned
  base configured explicitly: every size at most \<^verbatim>\<open>RESERVED_PREFIX\<close> makes the call fail
  and leave the memory as it is; the size \<^verbatim>\<open>RESERVED_PREFIX + 4\<close> makes it succeed with
  \<^verbatim>\<open>get_reserved_region\<close> returning the 4-byte region
  \<open>[base + RESERVED_PREFIX, base + RESERVED_PREFIX + 4)\<close> (32-bit addresses), provided
  \<open>base + RESERVED_PREFIX + 4\<close> is not zero modulo \<open>2 ^ 32\<close> and, when the call zeroes, no
  static variable lies in that region.
\<close>

theorem insufficient_memory_boundary_at:
  assumes "wf_layout L" and "\<not> s_reserved (statics_of L m)" and "unat b mod 4 = 0"
  shows "(sz \<le> RESERVED_PREFIX \<longrightarrow>
            reserve_at L marker z (set_ram_bounds_at L b sz m) =
              Some (False, set_ram_bounds_at L b sz m)) \<and>
         (b + RESERVED_PREFIX + 4 \<noteq> 0 \<and>
          (z \<longrightarrow> statics_outside L (b + RESERVED_PREFIX) (b + RESERVED_PREFIX + 4)) \<longrightarrow>
            (\<exists>m'. reserve_at L marker z (set_ram_bounds_at L b (RESERVED_PREFIX + 4) m) =
                    Some (True, m') \<and>
               get_reserved_region_at L m' =
                 \<lparr> r_start = b + RESERVED_PREFIX, r_end = b + RESERVED_PREFIX + 4 \<rparr> \<and>
               unat (r_end (get_reserved_region_at L m')) -
                 unat (r_start (get_reserved_region_at L m')) = 4))"
proof -
  have st: "statics_of L (set_ram_bounds_at L b x m) =
      (set_ram_bounds b x (statics_of L m))\<lparr> ram := set_ram_bounds_at L b x m \<rparr>" for x
    by (rule statics_of_set_ram_bounds_at [OF assms(1)])
  have e: "effective_ram_bounds marker (statics_of L (set_ram_bounds_at L b x m)) = (b, x)" for x
    by (simp add: st effective_explicit set_ram_bounds_def)
  have n: "\<not> s_reserved (statics_of L (set_ram_bounds_at L b x m))" for x
    using assms(2) by (simp add: st set_ram_bounds_def)
  have 1: "reserve_at L marker z (set_ram_bounds_at L b sz m) =
              Some (False, set_ram_bounds_at L b sz m)" if "sz \<le> RESERVED_PREFIX"
    using that n [of sz] by (simp add: reserve_at_eq e)
  have 2: "\<exists>m'. reserve_at L marker z (set_ram_bounds_at L b (RESERVED_PREFIX + 4) m) =
                    Some (True, m') \<and>
               get_reserved_region_at L m' =
                 \<lparr> r_start = b + RESERVED_PREFIX, r_end = b + RESERVED_PREFIX + 4 \<rparr> \<and>
               unat (r_end (get_reserved_region_at L m')) -
                 unat (r_start (get_reserved_region_at L m')) = 4"
    if nz: "b + RESERVED_PREFIX + 4 \<noteq> 0"
      and o: "z \<longrightarrow> statics_outside L (b + RESERVED_PREFIX) (b + RESERVED_PREFIX + 4)"
  proof -
    have a1: "unat (b + RESERVED_PREFIX) mod 4 = 0"
      using assms(3) by (intro aligned_add) (simp_all add: RESERVED_PREFIX_def)
    have a2: "unat (b + (RESERVED_PREFIX + 4)) mod 4 = 0"
      using assms(3) by (intro aligned_add) (simp_all add: RESERVED_PREFIX_def)
    have us: "usable_start_of b = b + RESERVED_PREFIX"
      using assms(3) by (rule usable_start_of_aligned_base)
    have ue: "usable_end_of b (RESERVED_PREFIX + 4) = b + RESERVED_PREFIX + 4"
      using usable_end_of_aligned_sum [OF a2] by (simp add: add.assoc)
    note l = aligned_less_plus_4 [OF a1 nz]
    have big: "\<not> RESERVED_PREFIX + 4 \<le> RESERVED_PREFIX" by (simp add: RESERVED_PREFIX_def)
    let ?m' = "committed_memory L (b + RESERVED_PREFIX) (b + RESERVED_PREFIX + 4) z
      (set_ram_bounds_at L b (RESERVED_PREFIX + 4) m)"
    have r: "reserve_at L marker z (set_ram_bounds_at L b (RESERVED_PREFIX + 4) m) =
        Some (True, ?m')"
      using n [of "RESERVED_PREFIX + 4"] l(1) big
      by (simp add: reserve_at_eq e us ue not_le)
    have g: "get_reserved_region_at L ?m' =
        \<lparr> r_start = b + RESERVED_PREFIX, r_end = b + RESERVED_PREFIX + 4 \<rparr>"
      by (simp add: get_reserved_region_at_statics statics_of_committed_memory [OF assms(1) o])
    from r g l(2) show ?thesis by simp
  qed
  from 1 2 show ?thesis by blast
qed

lemma uncommitted_boot_apart: "\<not> s_reserved (statics_of layout_apart boot_apart)"
  by (simp add: statics_of_boot_apart initial_state_def)

lemma uncommitted_boot_inside: "\<not> s_reserved (statics_of layout_inside boot_inside)"
  by (simp add: statics_of_boot_inside initial_state_def)

theorem insufficient_memory_boundary_at_witness:
  "wf_layout layout_apart \<and> \<not> s_reserved (statics_of layout_apart boot_apart) \<and>
   unat (0x1000 :: uintptr_t) mod 4 = 0 \<and> (0x2000 :: size_t) \<le> RESERVED_PREFIX \<and>
   reserve_at layout_apart None True (set_ram_bounds_at layout_apart 0x1000 0x2000 boot_apart) =
     Some (False, set_ram_bounds_at layout_apart 0x1000 0x2000 boot_apart) \<and>
   (0x1000 :: uintptr_t) + RESERVED_PREFIX + 4 \<noteq> 0 \<and>
   statics_outside layout_apart (0x1000 + RESERVED_PREFIX) (0x1000 + RESERVED_PREFIX + 4) \<and>
   (\<exists>m'. reserve_at layout_apart None True
           (set_ram_bounds_at layout_apart 0x1000 (RESERVED_PREFIX + 4) boot_apart) =
           Some (True, m') \<and>
      get_reserved_region_at layout_apart m' = \<lparr> r_start = 0x3000, r_end = 0x3004 \<rparr>)"
proof -
  have a: "unat (0x1000 :: uintptr_t) mod 4 = 0" by simp
  have le: "(0x2000 :: size_t) \<le> RESERVED_PREFIX" by (simp add: RESERVED_PREFIX_def)
  have nz: "(0x1000 :: uintptr_t) + RESERVED_PREFIX + 4 \<noteq> 0" by (simp add: RESERVED_PREFIX_def)
  have o: "statics_outside layout_apart (0x1000 + RESERVED_PREFIX) (0x1000 + RESERVED_PREFIX + 4)"
    by (rule statics_outside_apart) (simp_all add: RESERVED_PREFIX_def)
  note t = insufficient_memory_boundary_at [OF wf_layout_apart uncommitted_boot_apart a,
      where marker = None and z = True and sz = "0x2000"]
  have 1: "reserve_at layout_apart None True
      (set_ram_bounds_at layout_apart 0x1000 0x2000 boot_apart) =
     Some (False, set_ram_bounds_at layout_apart 0x1000 0x2000 boot_apart)"
    using t [THEN conjunct1] le by simp
  have 2: "\<exists>m'. reserve_at layout_apart None True
           (set_ram_bounds_at layout_apart 0x1000 (RESERVED_PREFIX + 4) boot_apart) =
           Some (True, m') \<and>
      get_reserved_region_at layout_apart m' = \<lparr> r_start = 0x3000, r_end = 0x3004 \<rparr>"
    using t [THEN conjunct2] nz o by (auto simp add: RESERVED_PREFIX_def)
  from wf_layout_apart uncommitted_boot_apart a le 1 nz o 2 show ?thesis by blast
qed

text \<open>
  C9 as stated fails at the word-aligned base \<open>0xFFFFDFFC\<close>, where \<open>base + size\<close>
  wraps to 0, the interval collapses and the call returns false; and at the base
  \<open>0x8049250\<close> with \<^verbatim>\<open>s_reserved_region\<close> stored at \<open>0x804B250\<close>, where the zeroing call
  returns true and the start \<^verbatim>\<open>get_reserved_region\<close> returns is 0.
\<close>

theorem insufficient_memory_boundary_at_counterexample:
  "\<not> s_reserved (statics_of layout_apart boot_apart) \<and>
   unat (0xFFFFDFFC :: uintptr_t) mod 4 = 0 \<and>
   reserve_at layout_apart None False
     (set_ram_bounds_at layout_apart 0xFFFFDFFC (RESERVED_PREFIX + 4) boot_apart) =
     Some (False, set_ram_bounds_at layout_apart 0xFFFFDFFC (RESERVED_PREFIX + 4) boot_apart) \<and>
   \<not> s_reserved (statics_of layout_inside boot_inside) \<and>
   unat (0x8049250 :: uintptr_t) mod 4 = 0 \<and>
   (0x8049250 :: uintptr_t) + RESERVED_PREFIX + 4 \<noteq> 0 \<and>
   reserve_at layout_inside None True
     (set_ram_bounds_at layout_inside 0x8049250 (RESERVED_PREFIX + 4) boot_inside) =
     Some (True, committed_memory layout_inside 0x804B250 0x804B254 True
       (set_ram_bounds_at layout_inside 0x8049250 (RESERVED_PREFIX + 4) boot_inside)) \<and>
   r_start (get_reserved_region_at layout_inside
     (committed_memory layout_inside 0x804B250 0x804B254 True
       (set_ram_bounds_at layout_inside 0x8049250 (RESERVED_PREFIX + 4) boot_inside))) = 0"
proof -
  have u1: "usable_start_of 0xFFFFDFFC = 0xFFFFFFFC" "usable_end_of 0xFFFFDFFC 0x2004 = 0"
    by (simp_all add: usable_start_of_def usable_end_of_def ALIGN_def RESERVED_PREFIX_def Let_def)
  have 1: "reserve_at layout_apart None False
     (set_ram_bounds_at layout_apart 0xFFFFDFFC (RESERVED_PREFIX + 4) boot_apart) =
     Some (False, set_ram_bounds_at layout_apart 0xFFFFDFFC (RESERVED_PREFIX + 4) boot_apart)"
    using uncommitted_configured_apart [of "0xFFFFDFFC" "0x2004"]
    by (simp add: reserve_at_eq effective_configured_apart u1 RESERVED_PREFIX_def)
  have u2: "usable_start_of 0x8049250 = 0x804B250" "usable_end_of 0x8049250 0x2004 = 0x804B254"
    by (simp_all add: usable_start_of_def usable_end_of_def ALIGN_def RESERVED_PREFIX_def Let_def)
  have n2: "\<not> s_reserved (statics_of layout_inside
      (set_ram_bounds_at layout_inside 0x8049250 0x2004 boot_inside))"
    by (simp add: statics_of_configured_inside set_ram_bounds_def initial_state_def)
  have e2: "effective_ram_bounds None (statics_of layout_inside
      (set_ram_bounds_at layout_inside 0x8049250 0x2004 boot_inside)) = (0x8049250, 0x2004)"
    by (simp add: statics_of_configured_inside effective_explicit set_ram_bounds_def)
  have 2: "reserve_at layout_inside None True
     (set_ram_bounds_at layout_inside 0x8049250 (RESERVED_PREFIX + 4) boot_inside) =
     Some (True, committed_memory layout_inside 0x804B250 0x804B254 True
       (set_ram_bounds_at layout_inside 0x8049250 (RESERVED_PREFIX + 4) boot_inside))"
    using n2 by (simp add: reserve_at_eq e2 u2 RESERVED_PREFIX_def)
  have 3: "r_start (get_reserved_region_at layout_inside
     (committed_memory layout_inside 0x804B250 0x804B254 True m)) = 0" for m
    by (simp add: get_reserved_region_at_def load32_def committed_memory_def store_bool_def
        zero_fill_def layout_inside_def)
  from 1 2 3 uncommitted_boot_apart uncommitted_boot_inside show ?thesis
    by (simp add: RESERVED_PREFIX_def)
qed

end
